theory Spec2Isabelle
  imports Complex_Main
begin

section \<open>The gesture backend: data model\<close>

text \<open>
  The server keeps one previous frame per device, computes the movement between the
  previous and the current frame, classifies the hand posture, and stores the result in
  the hand slot of the global gesture state. The repository holds two versions of it:
  the earlier one comes first, the later one after the endpoint.

  JavaScript numbers are modelled as reals: rounding is not modelled, and the numeric
  fields of a frame that is present are finite numbers. A property read on
  \<open>undefined\<close> throws a TypeError; a division whose divisor is zero leaves the finite
  numbers (it yields an infinity or NaN), which the model flags as \<open>ZeroDivisor\<close>.
\<close>

datatype fault = TypeError | ZeroDivisor

definition bindF :: "fault + 'a \<Rightarrow> ('a \<Rightarrow> fault + 'b) \<Rightarrow> fault + 'b" where
  "bindF r f = (case r of Inl e \<Rightarrow> Inl e | Inr v \<Rightarrow> f v)"

text \<open>Reading a property of a value that may be \<open>undefined\<close>.\<close>

definition deref :: "'a option \<Rightarrow> fault + 'a" where
  "deref v = (case v of None \<Rightarrow> Inl TypeError | Some a \<Rightarrow> Inr a)"

text \<open>The operator \<open>/\<close> on finite numbers.\<close>

definition js_div :: "real \<Rightarrow> real \<Rightarrow> fault + real" where
  "js_div a b = (if b = 0 then Inl ZeroDivisor else Inr (a / b))"

text \<open>\<open>v || d\<close> for an object \<open>v\<close> that may be absent.\<close>

definition orDefault :: "'a option \<Rightarrow> 'a \<Rightarrow> 'a" where
  "orDefault v d = (case v of None \<Rightarrow> d | Some a \<Rightarrow> a)"

text \<open>A point \<open>{x, y, z}\<close>.\<close>

record point =
  xc :: real
  yc :: real
  zc :: real

definition origin :: point where
  "origin = \<lparr>xc = 0, yc = 0, zc = 0\<rparr>"

text \<open>An array of three numbers, such as \<open>[roll, pitch, yaw]\<close>.\<close>

type_synonym triple = "real \<times> real \<times> real"

record imu =
  orientation :: triple
  acceleration :: triple
  gyroscope :: triple

record fingers =
  index :: real
  middle :: real
  ring :: real
  little :: real

record thumb =
  bend :: real

record palm =
  pressure :: real

record switches =
  selectButton :: bool
  modeButton :: bool
  confirmButton :: bool

text \<open>
  The body of a request. The device id and every top-level object may be missing; the
  timestamp and the fields of an object that is present are there.
\<close>

record frame =
  deviceId :: "string option"
  timestamp :: real
  imu :: "imu option"
  fingers :: "fingers option"
  thumb :: "thumb option"
  palm :: "palm option"
  position :: "point option"
  switches :: "switches option"

record movement =
  orientationDelta :: triple
  positionDelta :: point
  velocity :: point
  scaleFactor :: real
  md_orientation :: triple
  md_position :: point
  movementMagnitude :: real
  positionMagnitude :: real
  deltaTime :: real
  md_timestamp :: real

section \<open>Movement between two frames\<close>

text \<open>\<open>thumb?.bend || 0.5\<close>: an absent thumb and a bend of zero both give 0.5.\<close>

definition thumbBendOrHalf :: "thumb option \<Rightarrow> real" where
  "thumbBendOrHalf t =
     (case t of None \<Rightarrow> 0.5 | Some th \<Rightarrow> (if bend th = 0 then 0.5 else bend th))"

text \<open>\<open>Math.abs(fingers.index - (thumb?.bend || 0.5))\<close>\<close>

definition pinchDistance :: "fingers \<Rightarrow> thumb option \<Rightarrow> real" where
  "pinchDistance f t = \<bar>index f - thumbBendOrHalf t\<bar>"

text \<open>\<open>Math.sqrt(a * a + b * b + c * c)\<close>, as written out for both magnitudes.\<close>

definition magnitude :: "real \<Rightarrow> real \<Rightarrow> real \<Rightarrow> real" where
  "magnitude a b c = sqrt (a * a + b * b + c * c)"

text \<open>
  The velocity block of \<open>calculateMovementData\<close>: the position delta is divided by
  the delta time only when the delta time is positive.
\<close>

definition calculateVelocity :: "point \<Rightarrow> real \<Rightarrow> fault + point" where
  "calculateVelocity pd dt =
     (if dt > 0 then
        bindF (js_div (xc pd) dt) (\<lambda>vx.
        bindF (js_div (yc pd) dt) (\<lambda>vy.
        bindF (js_div (zc pd) dt) (\<lambda>vz.
          Inr \<lparr>xc = vx, yc = vy, zc = vz\<rparr>)))
      else Inr origin)"

text \<open>
  The scale factor block of \<open>calculateMovementData\<close>: it stays 1.0 unless both frames
  have fingers and the previous pinch distance is positive; then it is the quotient of
  the pinch distances, clamped.
\<close>

definition calculateScaleFactor :: "frame \<Rightarrow> frame \<Rightarrow> fault + real" where
  "calculateScaleFactor currentData previousData =
     (case (fingers currentData, fingers previousData) of
        (Some cf, Some pf) \<Rightarrow>
          (let currentPinchDistance = pinchDistance cf (thumb currentData);
               prevPinchDistance = pinchDistance pf (thumb previousData)
           in if prevPinchDistance > 0 then
                bindF (js_div currentPinchDistance prevPinchDistance) (\<lambda>q.
                  Inr (max 0.5 (min 2.0 q)))
              else Inr 1.0)
      | _ \<Rightarrow> Inr 1.0)"

text \<open>
  \<open>calculateMovementData(currentData, previousData)\<close>; \<open>None\<close> is the missing
  previous frame. The orientation delta is the difference of the angles, and the movement
  magnitude is \<open>Math.max\<close> of the two magnitudes.
\<close>

definition calculateMovementData :: "frame \<Rightarrow> frame option \<Rightarrow> fault + movement" where
  "calculateMovementData currentData previousData =
     (case previousData of
        None \<Rightarrow>
          bindF (deref (imu currentData)) (\<lambda>ci.
            Inr \<lparr>orientationDelta = (0, 0, 0),
                 positionDelta = origin,
                 velocity = origin,
                 scaleFactor = 1.0,
                 md_orientation = orientation ci,
                 md_position = orDefault (position currentData) origin,
                 movementMagnitude = 0,
                 positionMagnitude = 0,
                 deltaTime = 0,
                 md_timestamp = timestamp currentData\<rparr>)
      | Some prev \<Rightarrow>
          (let dt = (timestamp currentData - timestamp prev) / 1000;
               currentPos = orDefault (position currentData) origin;
               prevPos = orDefault (position prev) origin;
               pd = \<lparr>xc = xc currentPos - xc prevPos,
                     yc = yc currentPos - yc prevPos,
                     zc = zc currentPos - zc prevPos\<rparr>
           in bindF (calculateVelocity pd dt) (\<lambda>vel.
              bindF (deref (imu currentData)) (\<lambda>ci.
              bindF (deref (imu prev)) (\<lambda>pim.
                (case (orientation ci, orientation pim) of
                   ((c0, c1, c2), (p0, p1, p2)) \<Rightarrow>
                     (let od = (c0 - p0, c1 - p1, c2 - p2);
                          pm = magnitude (xc pd) (yc pd) (zc pd);
                          om = magnitude (c0 - p0) (c1 - p1) (c2 - p2);
                          mm = max pm om
                      in bindF (calculateScaleFactor currentData prev) (\<lambda>sf.
                           Inr \<lparr>orientationDelta = od,
                                positionDelta = pd,
                                velocity = vel,
                                scaleFactor = sf,
                                md_orientation = orientation ci,
                                md_position = currentPos,
                                movementMagnitude = mm,
                                positionMagnitude = pm,
                                deltaTime = dt,
                                md_timestamp = timestamp currentData\<rparr>))))))))"

section \<open>Gesture classification\<close>

datatype gesture = neutral | pinch | fist | open_palm | pointing

text \<open>The table \<open>GESTURE_THRESHOLDS\<close>.\<close>

definition FINGER_CLOSED :: real where
  "FINGER_CLOSED = 0.7"

definition FINGER_OPEN :: real where
  "FINGER_OPEN = 0.3"

definition PINCH_THRESHOLD :: real where
  "PINCH_THRESHOLD = 0.6"

definition FIST_THRESHOLD :: real where
  "FIST_THRESHOLD = 0.7"

definition PALM_PRESSURE :: real where
  "PALM_PRESSURE = 0.5"

text \<open>\<open>Object.values(fingers)\<close>: the bends of the four fingers; the thumb is a separate object.\<close>

definition objectValues :: "fingers \<Rightarrow> real list" where
  "objectValues f = [index f, middle f, ring f, little f]"

record details =
  d_isPinch :: bool
  d_isFist :: bool
  d_isOpenPalm :: bool
  d_isPointing :: bool
  d_closedFingers :: nat
  d_openFingers :: nat

record gesture_result =
  gesture :: gesture
  confidence :: real
  details :: details

definition calculateConfidence ::
    "gesture \<Rightarrow> fingers option \<Rightarrow> thumb option \<Rightarrow> palm option \<Rightarrow> fault + real" where
  "calculateConfidence g sf st sp =
     bindF
       (case g of
          pinch \<Rightarrow>
            bindF (deref sf) (\<lambda>f.
            bindF (deref st) (\<lambda>t.
              Inr (max 0 (1 - \<bar>index f - bend t\<bar> * 2))))
        | fist \<Rightarrow>
            bindF (deref sf) (\<lambda>f.
              Inr (min 1 (foldl (\<lambda>a b. a + b) 0 (objectValues f) / 5)))
        | open_palm \<Rightarrow>
            bindF (deref sf) (\<lambda>f.
              Inr (min 1 (1 - foldl (\<lambda>a b. a + b) 0 (objectValues f) / 5)))
        | pointing \<Rightarrow>
            bindF (deref sf) (\<lambda>f.
              Inr (1 - index f + middle f * 0.5))
        | neutral \<Rightarrow> Inr 0.5)
       (\<lambda>c. Inr (max 0.1 (min 1 c)))"

text \<open>
  \<open>&&\<close> evaluates its right operand only when the left one holds: the thumb is read
  only when the index bend is below the pinch threshold. The difference of the two bends
  is taken over the reals; the code rounds it, which decides the pinch test for a
  difference within rounding of 0.2 (for the bends 0.1 and 0.3 the rounded difference is
  below 0.2). Nothing below rests on the pinch test at such bends.
\<close>

definition classifyGesture ::
    "fingers option \<Rightarrow> thumb option \<Rightarrow> palm option \<Rightarrow> fault + gesture_result" where
  "classifyGesture sf st sp =
     bindF (deref sf) (\<lambda>f.
       (let closedFingers = length (filter (\<lambda>b. b > FINGER_CLOSED) (objectValues f));
            openFingers = length (filter (\<lambda>b. b < FINGER_OPEN) (objectValues f))
        in bindF
             (if index f < PINCH_THRESHOLD then
                bindF (deref st) (\<lambda>t.
                  Inr (bend t < PINCH_THRESHOLD \<and> \<bar>index f - bend t\<bar> < 0.2))
              else Inr False)
             (\<lambda>isPinch.
               (let isFist = (closedFingers \<ge> 4);
                    isOpenPalm = (openFingers \<ge> 4);
                    isPointing = (index f < FINGER_OPEN \<and> middle f > FINGER_CLOSED
                                  \<and> ring f > FINGER_CLOSED);
                    g = (if isPinch then pinch
                         else if isFist then fist
                         else if isOpenPalm then open_palm
                         else if isPointing then pointing
                         else neutral)
                in bindF (calculateConfidence g sf st sp) (\<lambda>c.
                     Inr \<lparr>gesture = g, confidence = c,
                          details = \<lparr>d_isPinch = isPinch, d_isFist = isFist,
                                     d_isOpenPalm = isOpenPalm, d_isPointing = isPointing,
                                     d_closedFingers = closedFingers,
                                     d_openFingers = openFingers\<rparr>\<rparr>)))))"

definition gestureToTransformMode :: "gesture \<Rightarrow> string" where
  "gestureToTransformMode g =
     (case g of
        open_palm \<Rightarrow> ''translate''
      | fist \<Rightarrow> ''rotate''
      | pinch \<Rightarrow> ''scale''
      | pointing \<Rightarrow> ''cursor''
      | neutral \<Rightarrow> ''translate'')"

definition normalizeCursorOrientation :: "imu option \<Rightarrow> fault + triple" where
  "normalizeCursorOrientation imuData =
     bindF (deref imuData) (\<lambda>i.
       (case orientation i of
          (roll, pitch, yaw) \<Rightarrow>
            Inr (sin yaw * cos pitch, sin pitch, cos yaw * cos pitch)))"

section \<open>Processing a frame\<close>

record actions =
  selectAction :: bool
  modeSwitch :: bool
  confirmAction :: bool

record raw_summary =
  rs_imu :: triple
  rs_position :: "point option"
  fingerBends :: "fingers option"
  thumbBend :: real
  palmPressure :: real

record event =
  ev_deviceId :: "string option"
  ev_timestamp :: real
  cursorOrientation :: triple
  ev_gesture :: gesture
  gestureConfidence :: real
  ev_transformMode :: string
  actions :: actions
  movementData :: movement
  rawSensorData :: raw_summary

text \<open>
  The history \<open>previousFrameData\<close> is a map from device ids to frames. The function
  returns the history as it is when the call ends, together with the event or the fault
  thrown: the history is written right after the movement is computed, before the
  classification, so a fault of a later step leaves the new entry in place. The argument
  \<open>now\<close> is the value of \<open>Date.now()\<close>.
\<close>

definition processSensorData ::
    "real \<Rightarrow> frame \<Rightarrow> (string option \<rightharpoonup> frame)
      \<Rightarrow> (string option \<rightharpoonup> frame) \<times> (fault + event)" where
  "processSensorData now rawData hist =
     (let previousData = hist (deviceId rawData)
      in case calculateMovementData rawData previousData of
           Inl e \<Rightarrow> (hist, Inl e)
         | Inr md \<Rightarrow>
             (hist(deviceId rawData \<mapsto> rawData),
              bindF (classifyGesture (fingers rawData) (thumb rawData) (palm rawData))
                (\<lambda>gestureResult.
              bindF (normalizeCursorOrientation (imu rawData)) (\<lambda>co.
              bindF (deref (switches rawData)) (\<lambda>sw.
              bindF (deref (imu rawData)) (\<lambda>i.
              bindF (deref (thumb rawData)) (\<lambda>t.
              bindF (deref (palm rawData)) (\<lambda>p.
                Inr \<lparr>ev_deviceId = deviceId rawData,
                     ev_timestamp = now,
                     cursorOrientation = co,
                     ev_gesture = gesture gestureResult,
                     gestureConfidence = confidence gestureResult,
                     ev_transformMode = gestureToTransformMode (gesture gestureResult),
                     actions = \<lparr>selectAction = selectButton sw,
                                modeSwitch = modeButton sw,
                                confirmAction = confirmButton sw\<rparr>,
                     movementData = md,
                     rawSensorData = \<lparr>rs_imu = orientation i,
                                      rs_position = position rawData,
                                      fingerBends = fingers rawData,
                                      thumbBend = bend t,
                                      palmPressure = pressure p\<rparr>\<rparr>))))))))"

section \<open>The endpoint for sensor data\<close>

record gesture_state =
  leftHand :: "event option"
  rightHand :: "event option"
  selectedObject :: "string option"
  transformMode :: string

text \<open>
  The state of the server: the history, the global gesture state, and the events
  broadcast to the clients so far, oldest first.
\<close>

record server =
  previousFrameData :: "string option \<rightharpoonup> frame"
  currentGestureState :: gesture_state
  emitted :: "event list"

definition initialServer :: server where
  "initialServer =
     \<lparr>previousFrameData = Map.empty,
      currentGestureState = \<lparr>leftHand = None, rightHand = None, selectedObject = None,
                             transformMode = ''translate''\<rparr>,
      emitted = []\<rparr>"

record summary =
  sm_gesture :: gesture
  sm_transformMode :: string
  sm_confidence :: real
  sm_movementMagnitude :: real

datatype response =
    Status400 string "string list"
  | Status200 string summary
  | Status500 string

text \<open>\<open>s.includes(sub)\<close>: \<open>sub\<close> occurs in \<open>s\<close> as a block.\<close>

fun str_includes :: "string \<Rightarrow> string \<Rightarrow> bool" where
  "str_includes [] sub = (sub = [])"
| "str_includes (c # cs) sub = (take (length sub) (c # cs) = sub \<or> str_includes cs sub)"

text \<open>\<open>!deviceId\<close>: a missing and an empty device id are both rejected.\<close>

definition missingId :: "string option \<Rightarrow> bool" where
  "missingId d = (case d of None \<Rightarrow> True | Some s \<Rightarrow> s = [])"

definition post_sensor_data :: "real \<Rightarrow> frame \<Rightarrow> server \<Rightarrow> server \<times> response" where
  "post_sensor_data now body srv =
     (if missingId (deviceId body) \<or> imu body = None
         \<or> fingers body = None then
        (srv, Status400 ''Missing required sensor data fields''
                [''deviceId'', ''imu'', ''fingers'', ''thumb'', ''switches''])
      else
        (case processSensorData now body (previousFrameData srv) of
           (hist, Inl e) \<Rightarrow>
             (srv\<lparr>previousFrameData := hist\<rparr>, Status500 ''Internal server error'')
         | (hist, Inr processedData) \<Rightarrow>
             (let gs = currentGestureState srv;
                  gs' = (if str_includes (orDefault (deviceId body) []) ''left''
                         then gs\<lparr>leftHand := Some processedData\<rparr>
                         else gs\<lparr>rightHand := Some processedData\<rparr>)
              in (srv\<lparr>previousFrameData := hist,
                      currentGestureState := gs',
                      emitted := emitted srv @ [processedData]\<rparr>,
                  Status200 ''success''
                    \<lparr>sm_gesture = ev_gesture processedData,
                     sm_transformMode = ev_transformMode processedData,
                     sm_confidence = gestureConfidence processedData,
                     sm_movementMagnitude =
                       movementMagnitude (movementData processedData)\<rparr>))))"

section \<open>The later server\<close>

text \<open>
  The repository holds a later version of the server, which replaces the classifier by
  one that detects the pinch from the \<open>imu\<close> readings and the movement calculation by
  one that normalizes the orientation delta, drops stale pairs of frames and combines the
  two magnitudes. Its functions carry the names of the earlier ones; here they have the
  suffix 2. The validation, the update of the history and of the hand slots and the
  broadcast are those of the earlier server.
\<close>

text \<open>
  The two loops that normalize an angle difference:
  \<open>while (delta > Math.PI) delta -= 2 * Math.PI\<close> and
  \<open>while (delta < -Math.PI) delta += 2 * Math.PI\<close>. Over the reals both end, since
  every pass moves the difference by a full turn towards the interval. (A double so large
  that a full turn is below its rounding would not change; angles in radians are far
  from that.)
\<close>

function subtractTurns :: "real \<Rightarrow> real" where
  "subtractTurns delta = (if delta > pi then subtractTurns (delta - 2 * pi) else delta)"
  by pat_completeness auto
termination
proof (relation "measure (\<lambda>delta. nat \<lceil>delta / (2 * pi)\<rceil>)")
  show "wf (measure (\<lambda>delta. nat \<lceil>delta / (2 * pi)\<rceil>))" by simp
next
  fix delta :: real
  assume a: "pi < delta"
  have e: "(delta - 2 * pi) / (2 * pi) = delta / (2 * pi) - 1"
    by (simp add: field_simps)
  have "0 < delta" using a pi_gt_zero by linarith
  then have "0 < delta / (2 * pi)" by simp
  then have "1 \<le> \<lceil>delta / (2 * pi)\<rceil>" by linarith
  then have "nat (\<lceil>delta / (2 * pi)\<rceil> - 1) < nat \<lceil>delta / (2 * pi)\<rceil>" by linarith
  then show "(delta - 2 * pi, delta) \<in> measure (\<lambda>delta. nat \<lceil>delta / (2 * pi)\<rceil>)"
    by (simp add: e)
qed

function addTurns :: "real \<Rightarrow> real" where
  "addTurns delta = (if delta < - pi then addTurns (delta + 2 * pi) else delta)"
  by pat_completeness auto
termination
proof (relation "measure (\<lambda>delta. nat \<lceil>(- delta) / (2 * pi)\<rceil>)")
  show "wf (measure (\<lambda>delta. nat \<lceil>(- delta) / (2 * pi)\<rceil>))" by simp
next
  fix delta :: real
  assume a: "delta < - pi"
  have e: "(- (delta + 2 * pi)) / (2 * pi) = (- delta) / (2 * pi) - 1"
    by (simp add: field_simps)
  have "0 < - delta" using a pi_gt_zero by linarith
  then have "0 < (- delta) / (2 * pi)" by (rule divide_pos_pos) simp
  then have "1 \<le> \<lceil>(- delta) / (2 * pi)\<rceil>" by linarith
  then have "nat \<lceil>(- delta) / (2 * pi) - 1\<rceil> < nat \<lceil>(- delta) / (2 * pi)\<rceil>" by linarith
  then show "(delta + 2 * pi, delta) \<in> measure (\<lambda>delta. nat \<lceil>(- delta) / (2 * pi)\<rceil>)"
    unfolding in_measure e .
qed

text \<open>
  The body of the callback that computes one component of the orientation delta, applied
  to the raw difference of the angles.
\<close>

definition normalizeDelta :: "real \<Rightarrow> real" where
  "normalizeDelta delta = addTurns (subtractTurns delta)"

text \<open>
  \<open>Math.sqrt(a ** 2 + b ** 2 + c ** 2)\<close>, as written out for the gyroscope, the
  acceleration, the position delta and the orientation delta.
\<close>

definition magnitude2 :: "real \<Rightarrow> real \<Rightarrow> real \<Rightarrow> real" where
  "magnitude2 a b c = sqrt (a\<^sup>2 + b\<^sup>2 + c\<^sup>2)"

text \<open>
  The estimate of the distance between thumb and index finger from the roll angle and
  the gyroscope; the position is passed and not used.
\<close>

definition calculateIMUBasedPinchDistance :: "imu \<Rightarrow> point option \<Rightarrow> real" where
  "calculateIMUBasedPinchDistance i pos =
     (case (orientation i, gyroscope i) of
        ((roll, pitch, yaw), (g0, g1, g2)) \<Rightarrow>
          (let gyroMagnitude = magnitude2 g0 g1 g2;
               rollDeviation = \<bar>roll\<bar>;
               pitchStability = 1.0 - min 1.0 (\<bar>pitch\<bar> / (pi / 4));
               baseDistance = 0.05;
               pinchFactor = max 0 (1.0 - rollDeviation / (pi / 6));
               stabilityFactor = max 0 (1.0 - gyroMagnitude)
           in baseDistance * pinchFactor * (0.5 + 0.5 * stabilityFactor)))"

text \<open>
  \<open>classifyGesture(sensorData)\<close> of the later server, on the whole frame. It reads
  the \<open>imu\<close> object first and the fingers after it; thumb, palm and switches are not
  read.
\<close>

record gesture_result2 =
  gesture2 :: gesture
  confidence2 :: real

definition classifyGesture2 :: "frame \<Rightarrow> fault + gesture_result2" where
  "classifyGesture2 sensorData =
     bindF (deref (imu sensorData)) (\<lambda>i.
       (case (gyroscope i, acceleration i) of
          ((g0, g1, g2), (a0, a1, a2)) \<Rightarrow>
            (let gyroMagnitude = magnitude2 g0 g1 g2;
                 accelMagnitude = magnitude2 a0 a1 a2;
                 thumbIndexDistance = calculateIMUBasedPinchDistance i (position sensorData);
                 isPinching = (thumbIndexDistance < 0.03 \<and> gyroMagnitude < 0.5)
             in bindF (deref (fingers sensorData)) (\<lambda>f.
                  (let indexExtended = (index f < 0.3);
                       othersRetracted = (middle f > 0.7 \<and> ring f > 0.7 \<and> little f > 0.7);
                       isPointing = (indexExtended \<and> othersRetracted \<and> gyroMagnitude < 0.3);
                       allRetracted = list_all (\<lambda>b. b > 0.6) (objectValues f);
                       isFist = ((allRetracted \<or> gyroMagnitude > 1.0) \<and> \<not> isPinching);
                       allExtended = list_all (\<lambda>b. b < 0.4) (objectValues f);
                       isOpenPalm = (allExtended \<and> gyroMagnitude < 0.5 \<and> \<not> isPinching)
                   in Inr (if isPinching then
                             \<lparr>gesture2 = pinch,
                              confidence2 =
                                min 0.95 (0.7 + (0.03 - thumbIndexDistance) / 0.03 * 0.25)\<rparr>
                           else if isPointing then
                             \<lparr>gesture2 = pointing, confidence2 = 0.85\<rparr>
                           else if isFist then
                             \<lparr>gesture2 = fist,
                              confidence2 = min 0.9 (0.6 + gyroMagnitude / 2.0 * 0.3)\<rparr>
                           else if isOpenPalm then
                             \<lparr>gesture2 = open_palm, confidence2 = 0.8\<rparr>
                           else \<lparr>gesture2 = neutral, confidence2 = 0.5\<rparr>))))))"

text \<open>
  \<open>calculateMovementData(deviceId, currentData, previousData)\<close> of the later
  server. It returns \<open>null\<close> (here \<open>None\<close>) without a previous frame and when the
  delta time is not in \<open>(0, 1]\<close>; otherwise it reads the positions of both frames,
  which have no default here.
\<close>

record movement2 =
  orientationDelta2 :: triple
  positionDelta2 :: point
  velocity2 :: point
  scaleFactor2 :: real
  orientation2 :: triple
  position2 :: "point option"
  movementMagnitude2 :: real
  positionMagnitude2 :: real
  deltaTime2 :: real
  timestamp2 :: real

definition calculateMovementData2 ::
    "string option \<Rightarrow> frame \<Rightarrow> frame option \<Rightarrow> fault + movement2 option" where
  "calculateMovementData2 dev currentData previousData =
     (case previousData of
        None \<Rightarrow> Inr None
      | Some prev \<Rightarrow>
          (let dt = (timestamp currentData - timestamp prev) / 1000
           in if dt \<le> 0 \<or> dt > 1 then Inr None
              else
                bindF (deref (position currentData)) (\<lambda>cp.
                bindF (deref (position prev)) (\<lambda>pp.
                  (let pd = \<lparr>xc = xc cp - xc pp, yc = yc cp - yc pp, zc = zc cp - zc pp\<rparr>;
                       pm = magnitude2 (xc pd) (yc pd) (zc pd)
                   in bindF (js_div (xc pd) dt) (\<lambda>vx.
                      bindF (js_div (yc pd) dt) (\<lambda>vy.
                      bindF (js_div (zc pd) dt) (\<lambda>vz.
                      bindF (deref (imu currentData)) (\<lambda>ci.
                      bindF (deref (imu prev)) (\<lambda>pim.
                        (case (orientation ci, orientation pim) of
                           ((c0, c1, c2), (p0, p1, p2)) \<Rightarrow>
                             (let od = (normalizeDelta (c0 - p0), normalizeDelta (c1 - p1),
                                        normalizeDelta (c2 - p2));
                                  currentPinchDist =
                                    calculateIMUBasedPinchDistance ci (position currentData);
                                  previousPinchDist =
                                    calculateIMUBasedPinchDistance pim (position prev)
                              in bindF (if previousPinchDist > 0.001
                                        then js_div currentPinchDist previousPinchDist
                                        else Inr 1.0) (\<lambda>sf.
                                   (let om = magnitude2 (fst od) (fst (snd od)) (snd (snd od));
                                        mm = sqrt (pm\<^sup>2 + om\<^sup>2)
                                    in Inr (Some
                                         \<lparr>orientationDelta2 = od,
                                          positionDelta2 = pd,
                                          velocity2 = \<lparr>xc = vx, yc = vy, zc = vz\<rparr>,
                                          scaleFactor2 = sf,
                                          orientation2 = orientation ci,
                                          position2 = position currentData,
                                          movementMagnitude2 = mm,
                                          positionMagnitude2 = pm,
                                          deltaTime2 = dt,
                                          timestamp2 = timestamp currentData\<rparr>)))))))))))))))"

text \<open>
  \<open>movementData || { ... }\<close> in \<open>processSensorData\<close>: the identity movement
  stands in for \<open>null\<close>.
\<close>

definition movementOrDefault :: "movement2 option \<Rightarrow> imu \<Rightarrow> frame \<Rightarrow> movement2" where
  "movementOrDefault md i rawData =
     (case md of
        Some m \<Rightarrow> m
      | None \<Rightarrow>
          \<lparr>orientationDelta2 = (0, 0, 0),
           positionDelta2 = \<lparr>xc = 0, yc = 0, zc = 0\<rparr>,
           velocity2 = \<lparr>xc = 0, yc = 0, zc = 0\<rparr>,
           scaleFactor2 = 1.0,
           orientation2 = orientation i,
           position2 = position rawData,
           movementMagnitude2 = 0,
           positionMagnitude2 = 0,
           deltaTime2 = 0,
           timestamp2 = timestamp rawData\<rparr>)"

text \<open>
  \<open>processSensorData(rawData)\<close> of the later server, with the history passed and
  returned as for the earlier one.
\<close>

record event2 =
  e2_deviceId :: "string option"
  e2_timestamp :: real
  e2_cursorOrientation :: triple
  e2_gesture :: gesture
  e2_gestureConfidence :: real
  e2_transformMode :: string
  e2_actions :: actions
  e2_movementData :: movement2
  e2_rawSensorData :: raw_summary

definition processSensorData2 ::
    "real \<Rightarrow> frame \<Rightarrow> (string option \<rightharpoonup> frame)
      \<Rightarrow> (string option \<rightharpoonup> frame) \<times> (fault + event2)" where
  "processSensorData2 now rawData hist =
     (let previousData = hist (deviceId rawData)
      in case calculateMovementData2 (deviceId rawData) rawData previousData of
           Inl e \<Rightarrow> (hist, Inl e)
         | Inr md \<Rightarrow>
             (hist(deviceId rawData \<mapsto> rawData),
              bindF (classifyGesture2 rawData) (\<lambda>gestureResult.
              bindF (normalizeCursorOrientation (imu rawData)) (\<lambda>co.
              bindF (deref (switches rawData)) (\<lambda>sw.
              bindF (deref (imu rawData)) (\<lambda>i.
              bindF (deref (thumb rawData)) (\<lambda>t.
              bindF (deref (palm rawData)) (\<lambda>p.
                Inr \<lparr>e2_deviceId = deviceId rawData,
                     e2_timestamp = now,
                     e2_cursorOrientation = co,
                     e2_gesture = gesture2 gestureResult,
                     e2_gestureConfidence = confidence2 gestureResult,
                     e2_transformMode = gestureToTransformMode (gesture2 gestureResult),
                     e2_actions = \<lparr>selectAction = selectButton sw,
                                   modeSwitch = modeButton sw,
                                   confirmAction = confirmButton sw\<rparr>,
                     e2_movementData = movementOrDefault md i rawData,
                     e2_rawSensorData = \<lparr>rs_imu = orientation i,
                                         rs_position = position rawData,
                                         fingerBends = fingers rawData,
                                         thumbBend = bend t,
                                         palmPressure = pressure p\<rparr>\<rparr>))))))))"

section \<open>Sample frames\<close>

text \<open>A hand at rest: the neutral pattern of the glove simulator.\<close>

definition restFrame :: frame where
  "restFrame =
     \<lparr>deviceId = Some ''rightHand1'',
      timestamp = 1000,
      imu = Some \<lparr>orientation = (0, 0, 0), acceleration = (0, 9.8, 0),
                  gyroscope = (0, 0, 0)\<rparr>,
      fingers = Some \<lparr>index = 0.4, middle = 0.4, ring = 0.4, little = 0.4\<rparr>,
      thumb = Some \<lparr>bend = 0.4\<rparr>,
      palm = Some \<lparr>pressure = 0.3\<rparr>,
      position = Some \<lparr>xc = 0, yc = 0, zc = 0\<rparr>,
      switches = Some \<lparr>selectButton = False, modeButton = False,
                       confirmButton = False\<rparr>\<rparr>"

text \<open>A tenth of a second later: moved by 3 along x, rolled by 4 radians.\<close>

definition movedFrame :: frame where
  "movedFrame =
     restFrame\<lparr>timestamp := 1100,
       imu := Some \<lparr>orientation = (4, 0, 0), acceleration = (0, 9.8, 0),
                    gyroscope = (0, 0, 0)\<rparr>,
       position := Some \<lparr>xc = 3, yc = 0, zc = 0\<rparr>\<rparr>"




text \<open>Moved by 1 along x, with the timestamp of the frame at rest and five seconds later.\<close>

definition sameTimeFrame :: frame where
  "sameTimeFrame = restFrame\<lparr>position := Some \<lparr>xc = 1, yc = 0, zc = 0\<rparr>\<rparr>"

definition staleFrame :: frame where
  "staleFrame = restFrame\<lparr>timestamp := 6000, position := Some \<lparr>xc = 1, yc = 0, zc = 0\<rparr>\<rparr>"

text \<open>Frames that leave out one optional object.\<close>

definition noThumbFrame :: frame where
  "noThumbFrame = restFrame\<lparr>timestamp := 1100, thumb := None\<rparr>"

definition noPalmFrame :: frame where
  "noPalmFrame = restFrame\<lparr>timestamp := 1100, palm := None\<rparr>"

definition noSwitchesFrame :: frame where
  "noSwitchesFrame = restFrame\<lparr>timestamp := 1100, switches := None\<rparr>"

definition noPositionFrame :: frame where
  "noPositionFrame = restFrame\<lparr>timestamp := 1100, position := None\<rparr>"

text \<open>A flat hand: every bend is 0.05, the thumb's too.\<close>

definition flatFrame :: frame where
  "flatFrame =
     restFrame\<lparr>fingers := Some \<lparr>index = 0.05, middle = 0.05, ring = 0.05, little = 0.05\<rparr>,
       thumb := Some \<lparr>bend = 0.05\<rparr>\<rparr>"

text \<open>A flat hand rolled by 1 radian, the gyroscope at rest.\<close>

definition rolledFlatFrame :: frame where
  "rolledFlatFrame =
     flatFrame\<lparr>imu := Some \<lparr>orientation = (1, 0, 0), acceleration = (0, 9.8, 0),
                             gyroscope = (0, 0, 0)\<rparr>\<rparr>"



text \<open>The frame at rest, sent by a left hand.\<close>

definition leftFrame :: frame where
  "leftFrame = restFrame\<lparr>deviceId := Some ''leftHand1''\<rparr>"

text \<open>A server that has seen the frame at rest of the right hand.\<close>

definition seenRest :: server where
  "seenRest = initialServer\<lparr>previousFrameData := [Some ''rightHand1'' \<mapsto> restFrame]\<rparr>"

section \<open>Basic facts\<close>

declare subtractTurns.simps [simp del] addTurns.simps [simp del]

lemma bindF_Inl [simp]: "bindF (Inl e) f = Inl e"
  by (simp add: bindF_def)

lemma bindF_Inr [simp]: "bindF (Inr v) f = f v"
  by (simp add: bindF_def)

lemma deref_Some [simp]: "deref (Some a) = Inr a"
  by (simp add: deref_def)

lemma deref_None [simp]: "deref None = Inl TypeError"
  by (simp add: deref_def)

lemma js_div_nonzero [simp]: "b \<noteq> 0 \<Longrightarrow> js_div a b = Inr (a / b)"
  by (simp add: js_div_def)

text \<open>The guards of the two divisions keep the divisor away from zero.\<close>

lemma calculateVelocity_eq:
  "calculateVelocity pd dt =
     Inr (if dt > 0 then \<lparr>xc = xc pd / dt, yc = yc pd / dt, zc = zc pd / dt\<rparr> else origin)"
  by (simp add: calculateVelocity_def)

lemma calculateScaleFactor_eq:
  "calculateScaleFactor c p =
     Inr (case (fingers c, fingers p) of
            (Some cf, Some pf) \<Rightarrow>
              if pinchDistance pf (thumb p) > 0
              then max 0.5 (min 2.0 (pinchDistance cf (thumb c) / pinchDistance pf (thumb p)))
              else 1.0
          | _ \<Rightarrow> 1.0)"
  by (simp add: calculateScaleFactor_def Let_def split: option.splits)

text \<open>The movement between two frames that both carry an \<open>imu\<close> object.\<close>

lemma calculateMovementData_Some:
  assumes "imu c = Some ci" and "imu p = Some pim"
    and "orientation ci = (c0, c1, c2)" and "orientation pim = (p0, p1, p2)"
  shows "calculateMovementData c (Some p) =
     (let dt = (timestamp c - timestamp p) / 1000;
          currentPos = orDefault (position c) origin;
          prevPos = orDefault (position p) origin;
          pd = \<lparr>xc = xc currentPos - xc prevPos,
                yc = yc currentPos - yc prevPos,
                zc = zc currentPos - zc prevPos\<rparr>;
          pm = magnitude (xc pd) (yc pd) (zc pd);
          om = magnitude (c0 - p0) (c1 - p1) (c2 - p2)
      in Inr \<lparr>orientationDelta = (c0 - p0, c1 - p1, c2 - p2),
              positionDelta = pd,
              velocity = (if dt > 0
                          then \<lparr>xc = xc pd / dt, yc = yc pd / dt, zc = zc pd / dt\<rparr>
                          else origin),
              scaleFactor =
                (case (fingers c, fingers p) of
                   (Some cf, Some pf) \<Rightarrow>
                     if pinchDistance pf (thumb p) > 0
                     then max 0.5 (min 2.0
                            (pinchDistance cf (thumb c) / pinchDistance pf (thumb p)))
                     else 1.0
                 | _ \<Rightarrow> 1.0),
              md_orientation = orientation ci,
              md_position = currentPos,
              movementMagnitude = max pm om,
              positionMagnitude = pm,
              deltaTime = dt,
              md_timestamp = timestamp c\<rparr>)"
  using assms
  by (simp add: calculateMovementData_def calculateVelocity_eq calculateScaleFactor_eq Let_def)

text \<open>The movement that an event carries is the one computed against the stored frame.\<close>

lemma processSensorData_movement:
  "snd (processSensorData now cur hist) = Inr ev \<Longrightarrow>
     calculateMovementData cur (hist (deviceId cur)) = Inr (movementData ev)"
  by (auto simp add: processSensorData_def Let_def bindF_def deref_def
      split: sum.splits option.splits)

text \<open>No path of the movement calculation reaches a division by zero.\<close>

lemma calculateMovementData_not_ZeroDivisor:
  "calculateMovementData c prev \<noteq> Inl ZeroDivisor"
  by (auto simp add: calculateMovementData_def calculateVelocity_eq calculateScaleFactor_eq
      Let_def deref_def bindF_def split: option.splits prod.splits sum.splits)

text \<open>A movement between two frames exists only when both carry an \<open>imu\<close> object.\<close>

lemma calculateMovementData_SomeE:
  assumes "calculateMovementData c (Some p) = Inr m"
  obtains ci pim c0 c1 c2 p0 p1 p2 where
    "imu c = Some ci" and "imu p = Some pim"
    and "orientation ci = (c0, c1, c2)" and "orientation pim = (p0, p1, p2)"
proof -
  from assms obtain ci where ci: "imu c = Some ci"
    by (cases "imu c") (simp_all add: calculateMovementData_def calculateVelocity_eq Let_def)
  from assms ci obtain pim where pim: "imu p = Some pim"
    by (cases "imu p") (simp_all add: calculateMovementData_def calculateVelocity_eq Let_def)
  obtain c0 c1 c2 where c: "orientation ci = (c0, c1, c2)" by (cases "orientation ci") auto
  obtain p0 p1 p2 where p: "orientation pim = (p0, p1, p2)" by (cases "orientation pim") auto
  from ci pim c p that show thesis by blast
qed

text \<open>A movement exists whenever the frames carry their \<open>imu\<close> objects.\<close>

lemma calculateMovementData_total:
  assumes "imu body = Some i" and "\<forall>p. prev = Some p \<longrightarrow> imu p \<noteq> None"
  shows "\<exists>md. calculateMovementData body prev = Inr md"
proof (cases prev)
  case None
  with assms(1) show ?thesis by (simp add: calculateMovementData_def)
next
  case (Some p)
  with assms(2) obtain pim where pim: "imu p = Some pim" by auto
  obtain c0 c1 c2 where c: "orientation i = (c0, c1, c2)" by (cases "orientation i") auto
  obtain p0 p1 p2 where p: "orientation pim = (p0, p1, p2)" by (cases "orientation pim") auto
  show ?thesis
    unfolding Some calculateMovementData_Some [OF assms(1) pim c p] Let_def by blast
qed

text \<open>The movement from the frame at rest to the frame with the same timestamp.\<close>

lemma same_time_from_rest:
  "calculateMovementData sameTimeFrame (Some restFrame) =
     Inr \<lparr>orientationDelta = (0, 0, 0),
          positionDelta = \<lparr>xc = 1, yc = 0, zc = 0\<rparr>,
          velocity = \<lparr>xc = 0, yc = 0, zc = 0\<rparr>,
          scaleFactor = 1,
          md_orientation = (0, 0, 0),
          md_position = \<lparr>xc = 1, yc = 0, zc = 0\<rparr>,
          movementMagnitude = 1,
          positionMagnitude = 1,
          deltaTime = 0,
          md_timestamp = 1000\<rparr>"
  by (simp add: calculateMovementData_def calculateVelocity_eq calculateScaleFactor_eq
      sameTimeFrame_def restFrame_def Let_def orDefault_def magnitude_def
      pinchDistance_def thumbBendOrHalf_def origin_def)

section \<open>The first frame of a device\<close>

text \<open>
  C8. The first frame accepted for a device id, that is a frame with its \<open>imu\<close> object
  for whose device id the history holds no frame, gives the identity movement: zero
  orientation and position deltas, zero velocity, a scale factor of 1, a movement
  magnitude of 0, with the orientation and the position of the current frame (the origin
  when the frame has no position). This is the movement of the event the frame is
  processed to.
\<close>

theorem first_frame_identity:
  assumes "hist (deviceId cur) = None" and "imu cur = Some i"
  shows "calculateMovementData cur (hist (deviceId cur)) =
           Inr \<lparr>orientationDelta = (0, 0, 0), positionDelta = origin, velocity = origin,
                scaleFactor = 1, md_orientation = orientation i,
                md_position = orDefault (position cur) origin,
                movementMagnitude = 0, positionMagnitude = 0, deltaTime = 0,
                md_timestamp = timestamp cur\<rparr>
         \<and> (\<forall>ev. snd (processSensorData now cur hist) = Inr ev \<longrightarrow>
                Inr (movementData ev) = calculateMovementData cur None)"
proof -
  have m: "calculateMovementData cur None =
           Inr \<lparr>orientationDelta = (0, 0, 0), positionDelta = origin, velocity = origin,
                scaleFactor = 1, md_orientation = orientation i,
                md_position = orDefault (position cur) origin,
                movementMagnitude = 0, positionMagnitude = 0, deltaTime = 0,
                md_timestamp = timestamp cur\<rparr>"
    using assms(2) by (simp add: calculateMovementData_def)
  have "Inr (movementData ev) = calculateMovementData cur None"
    if "snd (processSensorData now cur hist) = Inr ev" for ev
    using processSensorData_movement [OF that] assms(1) by simp
  with m assms(1) show ?thesis by simp
qed

theorem first_frame_identity_witness:
  "calculateMovementData restFrame (Map.empty (deviceId restFrame)) =
           Inr \<lparr>orientationDelta = (0, 0, 0), positionDelta = origin, velocity = origin,
                scaleFactor = 1, md_orientation = (0, 0, 0),
                md_position = origin,
                movementMagnitude = 0, positionMagnitude = 0, deltaTime = 0,
                md_timestamp = 1000\<rparr>
   \<and> map_sum id movementData (snd (processSensorData 1234 restFrame Map.empty))
       = calculateMovementData restFrame None"
proof -
  have a: "Map.empty (deviceId restFrame) = None" by simp
  have b: "imu restFrame = Some \<lparr>orientation = (0, 0, 0), acceleration = (0, 9.8, 0),
             gyroscope = (0, 0, 0)\<rparr>"
    by (simp add: restFrame_def)
  have "\<exists>ev. snd (processSensorData 1234 restFrame Map.empty) = Inr ev"
    by (simp add: processSensorData_def calculateMovementData_def restFrame_def
        classifyGesture_def calculateConfidence_def objectValues_def
        normalizeCursorOrientation_def Let_def
        FINGER_CLOSED_def FINGER_OPEN_def PINCH_THRESHOLD_def)
  then obtain ev where ev: "snd (processSensorData 1234 restFrame Map.empty) = Inr ev" ..
  from first_frame_identity [OF a b, of 1234] ev show ?thesis
    by (simp add: restFrame_def origin_def orDefault_def)
qed

section \<open>The guards of the divisions\<close>

text \<open>
  C10. The movement calculation never divides by zero, for any current frame and any
  previous frame or none. The velocity is zero whenever the delta time is zero or
  negative, and the position delta divided by the delta time otherwise. The scale factor
  lies in \<open>[0.5, 2]\<close>; it is 1 whenever the previous pinch distance is not positive (or a
  frame has no fingers), and the quotient of the pinch distances clamped to \<open>[0.5, 2]\<close>
  otherwise.
\<close>

theorem no_division_by_zero:
  "calculateMovementData cur prev \<noteq> Inl ZeroDivisor
   \<and> (imu cur \<noteq> None \<and> (\<forall>p. prev = Some p \<longrightarrow> imu p \<noteq> None) \<longrightarrow>
        (\<exists>m. calculateMovementData cur prev = Inr m))
   \<and> (\<forall>p m. prev = Some p \<and> calculateMovementData cur prev = Inr m \<longrightarrow>
         (deltaTime m \<le> 0 \<longrightarrow> velocity m = origin)
       \<and> (deltaTime m > 0 \<longrightarrow>
            velocity m = \<lparr>xc = xc (positionDelta m) / deltaTime m,
                          yc = yc (positionDelta m) / deltaTime m,
                          zc = zc (positionDelta m) / deltaTime m\<rparr>)
       \<and> 0.5 \<le> scaleFactor m \<and> scaleFactor m \<le> 2.0
       \<and> (fingers cur = None \<or> fingers p = None \<longrightarrow> scaleFactor m = 1.0)
       \<and> (\<forall>cf pf. fingers cur = Some cf \<and> fingers p = Some pf \<longrightarrow>
             scaleFactor m =
               (if pinchDistance pf (thumb p) > 0
                then max 0.5 (min 2.0 (pinchDistance cf (thumb cur) / pinchDistance pf (thumb p)))
                else 1.0)))"
proof -
  have "(deltaTime m \<le> 0 \<longrightarrow> velocity m = origin)
       \<and> (deltaTime m > 0 \<longrightarrow>
            velocity m = \<lparr>xc = xc (positionDelta m) / deltaTime m,
                          yc = yc (positionDelta m) / deltaTime m,
                          zc = zc (positionDelta m) / deltaTime m\<rparr>)
       \<and> 0.5 \<le> scaleFactor m \<and> scaleFactor m \<le> 2.0
       \<and> (fingers cur = None \<or> fingers p = None \<longrightarrow> scaleFactor m = 1.0)
       \<and> (\<forall>cf pf. fingers cur = Some cf \<and> fingers p = Some pf \<longrightarrow>
             scaleFactor m =
               (if pinchDistance pf (thumb p) > 0
                then max 0.5 (min 2.0 (pinchDistance cf (thumb cur) / pinchDistance pf (thumb p)))
                else 1.0))"
    if r: "calculateMovementData cur (Some p) = Inr m" for p m
  proof -
    from r obtain ci where ci: "imu cur = Some ci"
      by (cases "imu cur") (simp_all add: calculateMovementData_def calculateVelocity_eq Let_def)
    from r ci obtain pim where pim: "imu p = Some pim"
      by (cases "imu p") (simp_all add: calculateMovementData_def calculateVelocity_eq Let_def)
    obtain c0 c1 c2 where c: "orientation ci = (c0, c1, c2)" by (cases "orientation ci") auto
    obtain p0 p1 p2 where p: "orientation pim = (p0, p1, p2)" by (cases "orientation pim") auto
    from r have m: "m = projr (calculateMovementData cur (Some p))" by simp
    show ?thesis
      unfolding m calculateMovementData_Some [OF ci pim c p] Let_def
      by (auto split: option.splits simp add: max_def min_def)
  qed
  moreover have "\<exists>m. calculateMovementData cur prev = Inr m"
    if "imu cur \<noteq> None" and "\<forall>p. prev = Some p \<longrightarrow> imu p \<noteq> None"
    using that calculateMovementData_total [of cur _ prev] by auto
  ultimately show ?thesis
    using calculateMovementData_not_ZeroDivisor [of cur prev] by blast
qed

theorem no_division_by_zero_witness:
  "calculateMovementData sameTimeFrame (Some restFrame) \<noteq> Inl ZeroDivisor
   \<and> map_sum id deltaTime (calculateMovementData sameTimeFrame (Some restFrame)) = Inr 0
   \<and> map_sum id velocity (calculateMovementData sameTimeFrame (Some restFrame)) = Inr origin
   \<and> fingers restFrame = Some \<lparr>index = 0.4, middle = 0.4, ring = 0.4, little = 0.4\<rparr>
   \<and> pinchDistance \<lparr>index = 0.4, middle = 0.4, ring = 0.4, little = 0.4\<rparr> (thumb restFrame) = 0
   \<and> map_sum id scaleFactor (calculateMovementData sameTimeFrame (Some restFrame)) = Inr 1"
proof -
  have "pinchDistance \<lparr>index = 0.4, middle = 0.4, ring = 0.4, little = 0.4\<rparr>
          (thumb restFrame) = 0"
    by (simp add: restFrame_def pinchDistance_def thumbBendOrHalf_def)
  moreover have "fingers restFrame
      = Some \<lparr>index = 0.4, middle = 0.4, ring = 0.4, little = 0.4\<rparr>"
    by (simp add: restFrame_def)
  ultimately show ?thesis
    using no_division_by_zero [of sameTimeFrame "Some restFrame"]
    by (simp add: same_time_from_rest origin_def)
qed

section \<open>Facts about the classifier\<close>




lemma sum_objectValues:
  "foldl (\<lambda>a b. a + b) 0 (objectValues f) = index f + middle f + ring f + little f"
  by (simp add: objectValues_def)

text \<open>The confidence of a gesture for a hand with a thumb.\<close>

lemma calculateConfidence_thumb:
  "calculateConfidence g (Some f) (Some t) p =
     Inr (max 0.1 (min 1
       (case g of
          pinch \<Rightarrow> max 0 (1 - \<bar>index f - bend t\<bar> * 2)
        | fist \<Rightarrow> min 1 ((index f + middle f + ring f + little f) / 5)
        | open_palm \<Rightarrow> min 1 (1 - (index f + middle f + ring f + little f) / 5)
        | pointing \<Rightarrow> 1 - index f + middle f * 0.5
        | neutral \<Rightarrow> 0.5)))"
  by (cases g) (simp_all add: calculateConfidence_def sum_objectValues)

lemma calculateConfidence_total:
  "\<exists>c. calculateConfidence g (Some f) (Some t) p = Inr c"
  by (rule exI) (rule calculateConfidence_thumb)

text \<open>The classifier returns a result for every hand with fingers and a thumb.\<close>

lemma classifyGesture_total:
  "\<exists>r. classifyGesture (Some f) (Some t) p = Inr r"
proof -
  have "\<exists>r. bindF (calculateConfidence g (Some f) (Some t) p) (\<lambda>c. Inr (k c)) = Inr r"
    for g and k :: "real \<Rightarrow> gesture_result"
    using calculateConfidence_total [of g f t p] by auto
  then show ?thesis
    unfolding classifyGesture_def Let_def
    by (simp del: filter.simps)
qed



section \<open>The fist\<close>




section \<open>Facts about the endpoint\<close>

text \<open>\<open>str_includes\<close> decides whether a string occurs as a block of another.\<close>

lemma take_is_prefix: "(take (length sub) s = sub) = (\<exists>suf. s = sub @ suf)"
proof
  assume "take (length sub) s = sub"
  then have "s = sub @ drop (length sub) s" by (metis append_take_drop_id)
  then show "\<exists>suf. s = sub @ suf" ..
next
  assume "\<exists>suf. s = sub @ suf"
  then show "take (length sub) s = sub" by auto
qed

lemma str_includes_iff: "str_includes s sub = (\<exists>pre suf. s = pre @ sub @ suf)"
proof (induction s)
  case Nil
  then show ?case by auto
next
  case (Cons c cs)
  show ?case
  proof
    assume "str_includes (c # cs) sub"
    then consider "take (length sub) (c # cs) = sub" | "str_includes cs sub" by auto
    then show "\<exists>pre suf. c # cs = pre @ sub @ suf"
    proof cases
      case 1
      then obtain suf where "c # cs = sub @ suf" using take_is_prefix [of sub "c # cs"] by blast
      then have "c # cs = [] @ sub @ suf" by simp
      then show ?thesis by blast
    next
      case 2
      with Cons.IH obtain pre suf where "cs = pre @ sub @ suf" by blast
      then have "c # cs = (c # pre) @ sub @ suf" by simp
      then show ?thesis by blast
    qed
  next
    assume "\<exists>pre suf. c # cs = pre @ sub @ suf"
    then obtain pre suf where e: "c # cs = pre @ sub @ suf" by blast
    show "str_includes (c # cs) sub"
    proof (cases pre)
      case Nil
      with e have "take (length sub) (c # cs) = sub" using take_is_prefix [of sub "c # cs"] by auto
      then show ?thesis by simp
    next
      case (Cons a pre')
      with e have "cs = pre' @ sub @ suf" by simp
      with Cons.IH have "str_includes cs sub" by blast
      then show ?thesis by simp
    qed
  qed
qed

text \<open>
  Processing a frame writes at most the history entry of the frame's device, and the
  entry it writes is the frame.
\<close>

lemma processSensorData_hist_other:
  "d \<noteq> deviceId body \<Longrightarrow> fst (processSensorData now body hist) d = hist d"
  by (simp add: processSensorData_def Let_def split: sum.splits)

lemma processSensorData_hist:
  "fst (processSensorData now body hist) = hist
   \<or> fst (processSensorData now body hist) = hist(deviceId body \<mapsto> body)"
  by (simp add: processSensorData_def Let_def split: sum.splits)

text \<open>The three outcomes of a request.\<close>

lemma post_sensor_data_rejected:
  assumes "missingId (deviceId body) \<or> imu body = None \<or> fingers body = None"
  shows "post_sensor_data now body srv =
           (srv, Status400 ''Missing required sensor data fields''
                   [''deviceId'', ''imu'', ''fingers'', ''thumb'', ''switches''])"
  using assms by (auto simp add: post_sensor_data_def)

lemma post_sensor_data_fault:
  assumes "\<not> missingId (deviceId body)" and "imu body \<noteq> None" and "fingers body \<noteq> None"
    and "snd (processSensorData now body (previousFrameData srv)) = Inl e"
  shows "post_sensor_data now body srv =
           (srv\<lparr>previousFrameData := fst (processSensorData now body (previousFrameData srv))\<rparr>,
            Status500 ''Internal server error'')"
  using assms
  by (cases "processSensorData now body (previousFrameData srv)")
    (auto simp add: post_sensor_data_def)

lemma post_sensor_data_event:
  assumes "\<not> missingId (deviceId body)" and "imu body \<noteq> None" and "fingers body \<noteq> None"
    and "snd (processSensorData now body (previousFrameData srv)) = Inr ev"
  shows "post_sensor_data now body srv =
           (srv\<lparr>previousFrameData := fst (processSensorData now body (previousFrameData srv)),
                currentGestureState :=
                  (if str_includes (orDefault (deviceId body) []) ''left''
                   then (currentGestureState srv)\<lparr>leftHand := Some ev\<rparr>
                   else (currentGestureState srv)\<lparr>rightHand := Some ev\<rparr>),
                emitted := emitted srv @ [ev]\<rparr>,
            Status200 ''success''
              \<lparr>sm_gesture = ev_gesture ev,
               sm_transformMode = ev_transformMode ev,
               sm_confidence = gestureConfidence ev,
               sm_movementMagnitude = movementMagnitude (movementData ev)\<rparr>)"
  using assms
  by (cases "processSensorData now body (previousFrameData srv)")
    (auto simp add: post_sensor_data_def Let_def)

lemma post_sensor_data_cases:
  obtains
    (rejected) "post_sensor_data now body srv =
           (srv, Status400 ''Missing required sensor data fields''
                   [''deviceId'', ''imu'', ''fingers'', ''thumb'', ''switches''])"
  | (fault) "post_sensor_data now body srv =
           (srv\<lparr>previousFrameData := fst (processSensorData now body (previousFrameData srv))\<rparr>,
            Status500 ''Internal server error'')"
  | (event) ev where "\<not> missingId (deviceId body)"
      and "post_sensor_data now body srv =
           (srv\<lparr>previousFrameData := fst (processSensorData now body (previousFrameData srv)),
                currentGestureState :=
                  (if str_includes (orDefault (deviceId body) []) ''left''
                   then (currentGestureState srv)\<lparr>leftHand := Some ev\<rparr>
                   else (currentGestureState srv)\<lparr>rightHand := Some ev\<rparr>),
                emitted := emitted srv @ [ev]\<rparr>,
            Status200 ''success''
              \<lparr>sm_gesture = ev_gesture ev,
               sm_transformMode = ev_transformMode ev,
               sm_confidence = gestureConfidence ev,
               sm_movementMagnitude = movementMagnitude (movementData ev)\<rparr>)"
proof (cases "missingId (deviceId body) \<or> imu body = None \<or> fingers body = None")
  case True
  then show ?thesis using rejected by (simp add: post_sensor_data_rejected)
next
  case False
  then have v: "\<not> missingId (deviceId body)" "imu body \<noteq> None" "fingers body \<noteq> None"
    by simp_all
  show ?thesis
  proof (cases "snd (processSensorData now body (previousFrameData srv))")
    case (Inl e)
    show ?thesis using fault post_sensor_data_fault [OF v Inl] by simp
  next
    case (Inr ev)
    show ?thesis using event [OF v(1)] post_sensor_data_event [OF v Inr] by simp
  qed
qed

text \<open>Every frame in the history has passed validation, so it carries an \<open>imu\<close> object.\<close>

lemma history_keeps_imu:
  assumes "\<forall>d fr. previousFrameData srv d = Some fr \<longrightarrow> imu fr \<noteq> None"
  shows "\<forall>d fr. previousFrameData (fst (post_sensor_data now body srv)) d = Some fr
           \<longrightarrow> imu fr \<noteq> None"
proof (cases "missingId (deviceId body) \<or> imu body = None \<or> fingers body = None")
  case True
  then show ?thesis using assms by (simp add: post_sensor_data_rejected)
next
  case False
  then have v: "\<not> missingId (deviceId body)" "imu body \<noteq> None" "fingers body \<noteq> None"
    by simp_all
  have "previousFrameData (fst (post_sensor_data now body srv))
          = fst (processSensorData now body (previousFrameData srv))"
  proof (cases "snd (processSensorData now body (previousFrameData srv))")
    case (Inl e)
    show ?thesis unfolding post_sensor_data_fault [OF v Inl] by simp
  next
    case (Inr ev)
    show ?thesis unfolding post_sensor_data_event [OF v Inr] by simp
  qed
  with processSensorData_hist [of now body "previousFrameData srv"] assms v(2)
  show ?thesis by (auto split: if_splits)
qed

text \<open>A frame with every object but the position is processed to an event.\<close>

lemma calculateMovementData_no_position:
  "position body = None \<Longrightarrow>
     calculateMovementData body prev
       = calculateMovementData (body\<lparr>position := Some origin\<rparr>) prev"
  by (simp add: calculateMovementData_def calculateScaleFactor_def orDefault_def
      split: option.splits)

lemma processSensorData_complete:
  assumes "calculateMovementData body (hist (deviceId body)) = Inr md"
    and "classifyGesture (fingers body) (thumb body) (palm body) = Inr gr"
    and "imu body = Some i" and "thumb body = Some t" and "palm body = Some p"
    and "switches body = Some sw"
  shows "\<exists>ev. processSensorData now body hist = (hist(deviceId body \<mapsto> body), Inr ev)
              \<and> movementData ev = md \<and> ev_gesture ev = gesture gr
              \<and> rs_position (rawSensorData ev) = position body"
  using assms
  by (cases "orientation i")
    (simp add: processSensorData_def normalizeCursorOrientation_def Let_def)

text \<open>The requests with the sample frames.\<close>

lemmas eval_defs =
  processSensorData_def calculateMovementData_def calculateVelocity_eq
  calculateScaleFactor_eq classifyGesture_def calculateConfidence_def objectValues_def
  normalizeCursorOrientation_def gestureToTransformMode_def Let_def orDefault_def
  magnitude_def pinchDistance_def thumbBendOrHalf_def origin_def
  FINGER_CLOSED_def FINGER_OPEN_def PINCH_THRESHOLD_def

lemma no_thumb_after_rest:
  "processSensorData now noThumbFrame [Some ''rightHand1'' \<mapsto> restFrame] =
     ([Some ''rightHand1'' \<mapsto> noThumbFrame], Inl TypeError)"
  by (simp add: eval_defs noThumbFrame_def restFrame_def)

lemma valid_noThumbFrame:
  "\<not> missingId (deviceId noThumbFrame) \<and> imu noThumbFrame \<noteq> None
   \<and> fingers noThumbFrame \<noteq> None"
  by (simp add: noThumbFrame_def restFrame_def missingId_def)

lemma valid_noPositionFrame:
  "\<not> missingId (deviceId noPositionFrame)
   \<and> imu noPositionFrame = Some \<lparr>orientation = (0, 0, 0), acceleration = (0, 9.8, 0),
                                     gyroscope = (0, 0, 0)\<rparr>
   \<and> fingers noPositionFrame = Some \<lparr>index = 0.4, middle = 0.4, ring = 0.4, little = 0.4\<rparr>
   \<and> thumb noPositionFrame = Some \<lparr>bend = 0.4\<rparr>
   \<and> palm noPositionFrame = Some \<lparr>pressure = 0.3\<rparr>
   \<and> switches noPositionFrame = Some \<lparr>selectButton = False, modeButton = False,
                                          confirmButton = False\<rparr>
   \<and> position noPositionFrame = None"
  by (simp add: noPositionFrame_def restFrame_def missingId_def)

lemma no_position_after_rest:
  "post_sensor_data 5 noPositionFrame seenRest =
     (seenRest\<lparr>previousFrameData := [Some ''rightHand1'' \<mapsto> noPositionFrame],
        currentGestureState := (currentGestureState seenRest)
          \<lparr>rightHand := Some
            \<lparr>ev_deviceId = Some ''rightHand1'', ev_timestamp = 5,
             cursorOrientation = (0, 0, 1), ev_gesture = pinch, gestureConfidence = 1,
             ev_transformMode = ''scale'',
             actions = \<lparr>selectAction = False, modeSwitch = False, confirmAction = False\<rparr>,
             movementData =
               \<lparr>orientationDelta = (0, 0, 0), positionDelta = origin, velocity = origin,
                scaleFactor = 1, md_orientation = (0, 0, 0), md_position = origin,
                movementMagnitude = 0, positionMagnitude = 0, deltaTime = 0.1,
                md_timestamp = 1100\<rparr>,
             rawSensorData =
               \<lparr>rs_imu = (0, 0, 0), rs_position = None,
                fingerBends = Some \<lparr>index = 0.4, middle = 0.4, ring = 0.4, little = 0.4\<rparr>,
                thumbBend = 0.4, palmPressure = 0.3\<rparr>\<rparr>\<rparr>,
        emitted :=
          [\<lparr>ev_deviceId = Some ''rightHand1'', ev_timestamp = 5,
             cursorOrientation = (0, 0, 1), ev_gesture = pinch, gestureConfidence = 1,
             ev_transformMode = ''scale'',
             actions = \<lparr>selectAction = False, modeSwitch = False, confirmAction = False\<rparr>,
             movementData =
               \<lparr>orientationDelta = (0, 0, 0), positionDelta = origin, velocity = origin,
                scaleFactor = 1, md_orientation = (0, 0, 0), md_position = origin,
                movementMagnitude = 0, positionMagnitude = 0, deltaTime = 0.1,
                md_timestamp = 1100\<rparr>,
             rawSensorData =
               \<lparr>rs_imu = (0, 0, 0), rs_position = None,
                fingerBends = Some \<lparr>index = 0.4, middle = 0.4, ring = 0.4, little = 0.4\<rparr>,
                thumbBend = 0.4, palmPressure = 0.3\<rparr>\<rparr>]\<rparr>,
      Status200 ''success''
        \<lparr>sm_gesture = pinch, sm_transformMode = ''scale'', sm_confidence = 1,
         sm_movementMagnitude = 0\<rparr>)"
  by (simp add: post_sensor_data_def eval_defs missingId_def seenRest_def initialServer_def
      noPositionFrame_def restFrame_def)

lemma rest_first:
  "post_sensor_data 5 restFrame initialServer =
     (initialServer\<lparr>previousFrameData := [Some ''rightHand1'' \<mapsto> restFrame],
        currentGestureState := (currentGestureState initialServer)
          \<lparr>rightHand := Some
            \<lparr>ev_deviceId = Some ''rightHand1'', ev_timestamp = 5,
             cursorOrientation = (0, 0, 1), ev_gesture = pinch, gestureConfidence = 1,
             ev_transformMode = ''scale'',
             actions = \<lparr>selectAction = False, modeSwitch = False, confirmAction = False\<rparr>,
             movementData =
               \<lparr>orientationDelta = (0, 0, 0), positionDelta = origin, velocity = origin,
                scaleFactor = 1, md_orientation = (0, 0, 0), md_position = origin,
                movementMagnitude = 0, positionMagnitude = 0, deltaTime = 0,
                md_timestamp = 1000\<rparr>,
             rawSensorData =
               \<lparr>rs_imu = (0, 0, 0), rs_position = Some origin,
                fingerBends = Some \<lparr>index = 0.4, middle = 0.4, ring = 0.4, little = 0.4\<rparr>,
                thumbBend = 0.4, palmPressure = 0.3\<rparr>\<rparr>\<rparr>,
        emitted :=
          [\<lparr>ev_deviceId = Some ''rightHand1'', ev_timestamp = 5,
             cursorOrientation = (0, 0, 1), ev_gesture = pinch, gestureConfidence = 1,
             ev_transformMode = ''scale'',
             actions = \<lparr>selectAction = False, modeSwitch = False, confirmAction = False\<rparr>,
             movementData =
               \<lparr>orientationDelta = (0, 0, 0), positionDelta = origin, velocity = origin,
                scaleFactor = 1, md_orientation = (0, 0, 0), md_position = origin,
                movementMagnitude = 0, positionMagnitude = 0, deltaTime = 0,
                md_timestamp = 1000\<rparr>,
             rawSensorData =
               \<lparr>rs_imu = (0, 0, 0), rs_position = Some origin,
                fingerBends = Some \<lparr>index = 0.4, middle = 0.4, ring = 0.4, little = 0.4\<rparr>,
                thumbBend = 0.4, palmPressure = 0.3\<rparr>\<rparr>]\<rparr>,
      Status200 ''success''
        \<lparr>sm_gesture = pinch, sm_transformMode = ''scale'', sm_confidence = 1,
         sm_movementMagnitude = 0\<rparr>)"
  by (simp add: post_sensor_data_def eval_defs missingId_def initialServer_def restFrame_def)

lemma left_first:
  "post_sensor_data 5 leftFrame initialServer =
     (initialServer\<lparr>previousFrameData := [Some ''leftHand1'' \<mapsto> leftFrame],
        currentGestureState := (currentGestureState initialServer)
          \<lparr>leftHand := Some
            \<lparr>ev_deviceId = Some ''leftHand1'', ev_timestamp = 5,
             cursorOrientation = (0, 0, 1), ev_gesture = pinch, gestureConfidence = 1,
             ev_transformMode = ''scale'',
             actions = \<lparr>selectAction = False, modeSwitch = False, confirmAction = False\<rparr>,
             movementData =
               \<lparr>orientationDelta = (0, 0, 0), positionDelta = origin, velocity = origin,
                scaleFactor = 1, md_orientation = (0, 0, 0), md_position = origin,
                movementMagnitude = 0, positionMagnitude = 0, deltaTime = 0,
                md_timestamp = 1000\<rparr>,
             rawSensorData =
               \<lparr>rs_imu = (0, 0, 0), rs_position = Some origin,
                fingerBends = Some \<lparr>index = 0.4, middle = 0.4, ring = 0.4, little = 0.4\<rparr>,
                thumbBend = 0.4, palmPressure = 0.3\<rparr>\<rparr>\<rparr>,
        emitted :=
          [\<lparr>ev_deviceId = Some ''leftHand1'', ev_timestamp = 5,
             cursorOrientation = (0, 0, 1), ev_gesture = pinch, gestureConfidence = 1,
             ev_transformMode = ''scale'',
             actions = \<lparr>selectAction = False, modeSwitch = False, confirmAction = False\<rparr>,
             movementData =
               \<lparr>orientationDelta = (0, 0, 0), positionDelta = origin, velocity = origin,
                scaleFactor = 1, md_orientation = (0, 0, 0), md_position = origin,
                movementMagnitude = 0, positionMagnitude = 0, deltaTime = 0,
                md_timestamp = 1000\<rparr>,
             rawSensorData =
               \<lparr>rs_imu = (0, 0, 0), rs_position = Some origin,
                fingerBends = Some \<lparr>index = 0.4, middle = 0.4, ring = 0.4, little = 0.4\<rparr>,
                thumbBend = 0.4, palmPressure = 0.3\<rparr>\<rparr>]\<rparr>,
      Status200 ''success''
        \<lparr>sm_gesture = pinch, sm_transformMode = ''scale'', sm_confidence = 1,
         sm_movementMagnitude = 0\<rparr>)"
  by (simp add: post_sensor_data_def eval_defs missingId_def initialServer_def restFrame_def
      leftFrame_def)

section \<open>A failure while a frame is processed\<close>

text \<open>
  The history is written before the frame is classified: a frame without a thumb, sent
  after the frame at rest, is answered with the internal error, and the history entry of
  the device then holds the failed frame instead of the frame at rest.
\<close>

theorem failed_frame_overwrites_history:
  "snd (post_sensor_data 5 noThumbFrame seenRest) = Status500 ''Internal server error''
   \<and> previousFrameData seenRest (Some ''rightHand1'') = Some restFrame
   \<and> previousFrameData (fst (post_sensor_data 5 noThumbFrame seenRest)) (Some ''rightHand1'')
       = Some noThumbFrame
   \<and> noThumbFrame \<noteq> restFrame"
proof -
  have p: "previousFrameData seenRest = [Some ''rightHand1'' \<mapsto> restFrame]"
    by (simp add: seenRest_def initialServer_def)
  have f: "snd (processSensorData 5 noThumbFrame (previousFrameData seenRest)) = Inl TypeError"
    unfolding p no_thumb_after_rest by simp
  have n: "noThumbFrame \<noteq> restFrame"
    by (simp add: noThumbFrame_def restFrame_def)
  from valid_noThumbFrame have v: "\<not> missingId (deviceId noThumbFrame)"
    "imu noThumbFrame \<noteq> None" "fingers noThumbFrame \<noteq> None" by simp_all
  show ?thesis
    unfolding post_sensor_data_fault [OF v f]
    using n by (simp add: p no_thumb_after_rest)
qed

text \<open>
  C5 (as amended). If a fault occurs while a frame that passed validation is processed,
  the caller receives the generic internal-error response, no event is broadcast, the
  global gesture state is unchanged, and the history entries of all other device ids
  are unchanged. Nothing is stated about the history entry of the frame's own device.
\<close>

theorem internal_failure_effects:
  assumes "\<not> missingId (deviceId body)" and "imu body \<noteq> None" and "fingers body \<noteq> None"
    and "snd (processSensorData now body (previousFrameData srv)) = Inl e"
  shows "snd (post_sensor_data now body srv) = Status500 ''Internal server error''
         \<and> emitted (fst (post_sensor_data now body srv)) = emitted srv
         \<and> currentGestureState (fst (post_sensor_data now body srv)) = currentGestureState srv
         \<and> (\<forall>d. d \<noteq> deviceId body \<longrightarrow>
               previousFrameData (fst (post_sensor_data now body srv)) d
                 = previousFrameData srv d)"
  unfolding post_sensor_data_fault [OF assms]
  by (simp add: processSensorData_hist_other)

theorem internal_failure_effects_witness:
  "\<not> missingId (deviceId noThumbFrame) \<and> imu noThumbFrame \<noteq> None
   \<and> fingers noThumbFrame \<noteq> None
   \<and> snd (processSensorData 5 noThumbFrame (previousFrameData seenRest)) = Inl TypeError
   \<and> snd (post_sensor_data 5 noThumbFrame seenRest) = Status500 ''Internal server error''
   \<and> emitted (fst (post_sensor_data 5 noThumbFrame seenRest)) = []
   \<and> currentGestureState (fst (post_sensor_data 5 noThumbFrame seenRest))
       = currentGestureState initialServer
   \<and> previousFrameData (fst (post_sensor_data 5 noThumbFrame seenRest)) (Some ''leftHand1'')
       = None"
proof -
  have p: "previousFrameData seenRest = [Some ''rightHand1'' \<mapsto> restFrame]"
    by (simp add: seenRest_def initialServer_def)
  have f: "snd (processSensorData 5 noThumbFrame (previousFrameData seenRest)) = Inl TypeError"
    unfolding p no_thumb_after_rest by simp
  from valid_noThumbFrame have v: "\<not> missingId (deviceId noThumbFrame)"
    "imu noThumbFrame \<noteq> None" "fingers noThumbFrame \<noteq> None" by simp_all
  have d: "Some ''leftHand1'' \<noteq> deviceId noThumbFrame"
    by (simp add: noThumbFrame_def restFrame_def)
  from internal_failure_effects [OF v f] d valid_noThumbFrame f show ?thesis
    by (simp add: seenRest_def initialServer_def)
qed

section \<open>Optional fields\<close>

text \<open>
  A frame that leaves out the thumb, the palm or the switches passes validation and is
  answered with the internal error.
\<close>

theorem missing_optional_object_fails:
  "snd (post_sensor_data 5 noThumbFrame initialServer) = Status500 ''Internal server error''
   \<and> snd (post_sensor_data 5 noPalmFrame initialServer) = Status500 ''Internal server error''
   \<and> snd (post_sensor_data 5 noSwitchesFrame initialServer)
       = Status500 ''Internal server error''"
  by (simp add: post_sensor_data_def eval_defs missingId_def initialServer_def
      noThumbFrame_def noPalmFrame_def noSwitchesFrame_def restFrame_def)

text \<open>
  C6 (as amended). A frame that carries a device id, \<open>imu\<close>, fingers, thumb, palm and
  switches is accepted and processed to an event whether it has a position or not, given
  that the stored previous frame of the device, if any, carries an \<open>imu\<close> object (as
  every stored frame does). The frame becomes the history entry of its device, and when
  it has no position the movement is the one of the same frame with the position
  \<open>{0, 0, 0}\<close>.
\<close>

theorem position_is_optional:
  assumes "\<not> missingId (deviceId body)" and "imu body = Some i" and "fingers body = Some f"
    and "thumb body = Some t" and "palm body = Some p" and "switches body = Some sw"
    and "\<forall>prev. previousFrameData srv (deviceId body) = Some prev \<longrightarrow> imu prev \<noteq> None"
  shows "\<exists>ev sm. snd (post_sensor_data now body srv) = Status200 ''success'' sm
           \<and> emitted (fst (post_sensor_data now body srv)) = emitted srv @ [ev]
           \<and> previousFrameData (fst (post_sensor_data now body srv)) (deviceId body) = Some body
           \<and> Inr (movementData ev)
               = calculateMovementData body (previousFrameData srv (deviceId body))
           \<and> md_position (movementData ev) = orDefault (position body) origin
           \<and> (position body = None \<longrightarrow>
                md_position (movementData ev) = origin
              \<and> Inr (movementData ev)
                  = calculateMovementData (body\<lparr>position := Some origin\<rparr>)
                      (previousFrameData srv (deviceId body)))"
proof -
  from calculateMovementData_total [OF assms(2) assms(7)] obtain md where
    md: "calculateMovementData body (previousFrameData srv (deviceId body)) = Inr md" by blast
  from classifyGesture_total [of f t "palm body"] assms(3,4) obtain gr where
    gr: "classifyGesture (fingers body) (thumb body) (palm body) = Inr gr" by auto
  from processSensorData_complete
    [where hist = "previousFrameData srv" and now = now, OF md gr assms(2) assms(4) assms(5) assms(6)]
  obtain ev where
    ev: "processSensorData now body (previousFrameData srv)
           = ((previousFrameData srv)(deviceId body \<mapsto> body), Inr ev)"
        "movementData ev = md"
    by blast
  have v: "imu body \<noteq> None" "fingers body \<noteq> None" using assms(2,3) by simp_all
  have s: "snd (processSensorData now body (previousFrameData srv)) = Inr ev"
    using ev(1) by simp
  have pos: "md_position md = orDefault (position body) origin"
  proof (cases "previousFrameData srv (deviceId body)")
    case None
    with md assms(2) show ?thesis by (auto simp add: calculateMovementData_def)
  next
    case (Some prev)
    with md obtain ci pim c0 c1 c2 p0 p1 p2 where
      h: "imu body = Some ci" "imu prev = Some pim"
         "orientation ci = (c0, c1, c2)" "orientation pim = (p0, p1, p2)"
      by (auto elim: calculateMovementData_SomeE)
    from md Some have "md = projr (calculateMovementData body (Some prev))" by simp
    then show ?thesis
      unfolding calculateMovementData_Some [OF h] Let_def by simp
  qed
  define sm where "sm =
          \<lparr>sm_gesture = ev_gesture ev, sm_transformMode = ev_transformMode ev,
           sm_confidence = gestureConfidence ev,
           sm_movementMagnitude = movementMagnitude (movementData ev)\<rparr>"
  have a1: "snd (post_sensor_data now body srv) = Status200 ''success'' sm"
    and a2: "emitted (fst (post_sensor_data now body srv)) = emitted srv @ [ev]"
    and a3: "previousFrameData (fst (post_sensor_data now body srv)) (deviceId body)
               = Some body"
    unfolding post_sensor_data_event [OF assms(1) v s] sm_def by (simp_all add: ev(1))
  have a4: "Inr (movementData ev)
               = calculateMovementData body (previousFrameData srv (deviceId body))"
    using md ev(2) by simp
  have a5: "md_position (movementData ev) = orDefault (position body) origin"
    using pos ev(2) by simp
  have a6: "md_position (movementData ev) = origin
              \<and> Inr (movementData ev)
                  = calculateMovementData (body\<lparr>position := Some origin\<rparr>)
                      (previousFrameData srv (deviceId body))"
    if "position body = None"
    using that pos ev(2) md calculateMovementData_no_position [OF that]
    by (simp add: orDefault_def)
  show ?thesis
    apply (rule exI [of _ ev])
    apply (rule exI [of _ sm])
    using a1 a2 a3 a4 a5 a6 apply simp
    done
qed

theorem position_is_optional_witness:
  "\<not> missingId (deviceId noPositionFrame) \<and> position noPositionFrame = None
   \<and> previousFrameData seenRest (deviceId noPositionFrame) = Some restFrame
   \<and> imu restFrame \<noteq> None
   \<and> snd (post_sensor_data 5 noPositionFrame seenRest) =
       Status200 ''success''
        \<lparr>sm_gesture = pinch, sm_transformMode = ''scale'', sm_confidence = 1,
         sm_movementMagnitude = 0\<rparr>
   \<and> map (\<lambda>ev. md_position (movementData ev))
         (emitted (fst (post_sensor_data 5 noPositionFrame seenRest))) = [origin]
   \<and> map (\<lambda>ev. positionDelta (movementData ev))
         (emitted (fst (post_sensor_data 5 noPositionFrame seenRest))) = [origin]"
proof -
  have h: "\<forall>prev. previousFrameData seenRest (deviceId noPositionFrame) = Some prev
             \<longrightarrow> imu prev \<noteq> None"
    by (simp add: seenRest_def initialServer_def noPositionFrame_def restFrame_def)
  have p: "previousFrameData seenRest (deviceId noPositionFrame) = Some restFrame"
    "imu restFrame \<noteq> None"
    by (simp_all add: seenRest_def initialServer_def noPositionFrame_def restFrame_def)
  from valid_noPositionFrame have v: "\<not> missingId (deviceId noPositionFrame)"
    "imu noPositionFrame = Some \<lparr>orientation = (0, 0, 0), acceleration = (0, 9.8, 0),
                                     gyroscope = (0, 0, 0)\<rparr>"
    "fingers noPositionFrame = Some \<lparr>index = 0.4, middle = 0.4, ring = 0.4, little = 0.4\<rparr>"
    "thumb noPositionFrame = Some \<lparr>bend = 0.4\<rparr>"
    "palm noPositionFrame = Some \<lparr>pressure = 0.3\<rparr>"
    "switches noPositionFrame = Some \<lparr>selectButton = False, modeButton = False,
                                          confirmButton = False\<rparr>"
    "position noPositionFrame = None"
    by simp_all
  from position_is_optional [OF v(1-6) h, of 5] v(1,7) p show ?thesis
    unfolding no_position_after_rest by simp
qed

section \<open>The hand slots of the global gesture state\<close>

text \<open>
  C9. A request with a sensor frame leaves the selected object and the transform mode of
  the global gesture state as they are. When the frame is accepted, its event is
  broadcast and stored in one hand slot, the other slot staying as it is: the left hand's
  slot when the device id contains \<open>left\<close>, the right hand's slot otherwise.
\<close>

theorem frame_updates_one_hand_slot:
  assumes "post_sensor_data now body srv = (srv', resp)"
  shows "selectedObject (currentGestureState srv') = selectedObject (currentGestureState srv)
     \<and> transformMode (currentGestureState srv') = transformMode (currentGestureState srv)
     \<and> (\<forall>st sm. resp = Status200 st sm \<longrightarrow>
          (\<exists>d ev. deviceId body = Some d \<and> emitted srv' = emitted srv @ [ev]
             \<and> (if \<exists>pre suf. d = pre @ ''left'' @ suf
                 then leftHand (currentGestureState srv') = Some ev
                    \<and> rightHand (currentGestureState srv')
                        = rightHand (currentGestureState srv)
                 else rightHand (currentGestureState srv') = Some ev
                    \<and> leftHand (currentGestureState srv')
                        = leftHand (currentGestureState srv))))"
proof (cases rule: post_sensor_data_cases [of now body srv])
  case rejected
  with assms show ?thesis by auto
next
  case fault
  with assms show ?thesis by auto
next
  case (event ev)
  from event(1) obtain d where d: "deviceId body = Some d"
    by (cases "deviceId body") (simp_all add: missingId_def)
  from event(2) assms d show ?thesis
    by (auto simp add: orDefault_def str_includes_iff)
qed

theorem frame_updates_one_hand_slot_witness:
  "snd (post_sensor_data 5 restFrame initialServer)
      = Status200 ''success''
          \<lparr>sm_gesture = pinch, sm_transformMode = ''scale'', sm_confidence = 1,
           sm_movementMagnitude = 0\<rparr>
   \<and> deviceId restFrame = Some ''rightHand1''
   \<and> \<not> str_includes ''rightHand1'' ''left''
   \<and> map_option ev_deviceId
         (rightHand (currentGestureState (fst (post_sensor_data 5 restFrame initialServer))))
       = Some (Some ''rightHand1'')
   \<and> leftHand (currentGestureState (fst (post_sensor_data 5 restFrame initialServer))) = None
   \<and> selectedObject (currentGestureState (fst (post_sensor_data 5 restFrame initialServer)))
       = None
   \<and> transformMode (currentGestureState (fst (post_sensor_data 5 restFrame initialServer)))
       = ''translate''
   \<and> deviceId leftFrame = Some ''leftHand1''
   \<and> str_includes ''leftHand1'' ''left''
   \<and> map_option ev_deviceId
         (leftHand (currentGestureState (fst (post_sensor_data 5 leftFrame initialServer))))
       = Some (Some ''leftHand1'')
   \<and> rightHand (currentGestureState (fst (post_sensor_data 5 leftFrame initialServer))) = None"
  using frame_updates_one_hand_slot [OF rest_first] frame_updates_one_hand_slot [OF left_first]
  unfolding rest_first left_first
  by (simp add: initialServer_def restFrame_def leftFrame_def)

section \<open>Facts about the later server\<close>


lemma subtractTurns_ge: "- pi \<le> d \<Longrightarrow> - pi \<le> subtractTurns d"
proof (induction d rule: subtractTurns.induct)
  case (1 delta)
  show ?case
  proof (cases "delta > pi")
    case True
    then have "- pi \<le> delta - 2 * pi" by simp
    with "1.IH" True show ?thesis by (simp add: subtractTurns.simps [of delta])
  next
    case False
    with "1.prems" show ?thesis by (simp add: subtractTurns.simps [of delta])
  qed
qed

lemma subtractTurns_low: "d \<le> pi \<Longrightarrow> subtractTurns d = d"
  by (simp add: subtractTurns.simps [of d])








lemma normalizeDelta_id: "- pi \<le> d \<Longrightarrow> d \<le> pi \<Longrightarrow> normalizeDelta d = d"
  by (simp add: normalizeDelta_def subtractTurns.simps [of d] addTurns.simps [of d])

text \<open>The normalized differences in the sample frames.\<close>

lemma normalizeDelta_0: "normalizeDelta 0 = 0"
  by (simp add: normalizeDelta_id)

lemma normalizeDelta_4: "normalizeDelta 4 = 4 - 2 * pi"
proof -
  have a: "subtractTurns 4 = subtractTurns (4 - 2 * pi)"
    using pi_less_4 by (simp add: subtractTurns.simps [of 4])
  have "4 - 2 * pi \<le> pi" using pi_ge_two by linarith
  then have b: "subtractTurns (4 - 2 * pi) = 4 - 2 * pi" by (rule subtractTurns_low)
  have "\<not> 4 - 2 * pi < - pi" using pi_less_4 by linarith
  then have c: "addTurns (4 - 2 * pi) = 4 - 2 * pi"
    by (simp add: addTurns.simps [of "4 - 2 * pi"])
  show ?thesis by (simp add: normalizeDelta_def a b c)
qed



text \<open>
  The later movement calculation: nothing for a stale pair of frames, and the movement in
  closed form for two frames with positions and \<open>imu\<close> objects whose delta time is in
  \<open>(0, 1]\<close>.
\<close>

lemma calculateMovementData2_stale:
  assumes "(timestamp cur - timestamp prev) / 1000 \<le> 0
           \<or> (timestamp cur - timestamp prev) / 1000 > 1"
  shows "calculateMovementData2 dev cur (Some prev) = Inr None"
  using assms by (auto simp add: calculateMovementData2_def Let_def)

lemma calculateMovementData2_fresh:
  assumes "0 < (timestamp cur - timestamp prev) / 1000"
    and "(timestamp cur - timestamp prev) / 1000 \<le> 1"
    and "position cur = Some cp" and "position prev = Some pp"
    and "imu cur = Some ci" and "imu prev = Some pim"
    and "orientation ci = (c0, c1, c2)" and "orientation pim = (p0, p1, p2)"
  shows "calculateMovementData2 dev cur (Some prev) =
     Inr (Some
       \<lparr>orientationDelta2 =
          (normalizeDelta (c0 - p0), normalizeDelta (c1 - p1), normalizeDelta (c2 - p2)),
        positionDelta2 = \<lparr>xc = xc cp - xc pp, yc = yc cp - yc pp, zc = zc cp - zc pp\<rparr>,
        velocity2 =
          \<lparr>xc = (xc cp - xc pp) / ((timestamp cur - timestamp prev) / 1000),
           yc = (yc cp - yc pp) / ((timestamp cur - timestamp prev) / 1000),
           zc = (zc cp - zc pp) / ((timestamp cur - timestamp prev) / 1000)\<rparr>,
        scaleFactor2 =
          (if calculateIMUBasedPinchDistance pim (position prev) > 0.001
           then calculateIMUBasedPinchDistance ci (position cur)
                  / calculateIMUBasedPinchDistance pim (position prev)
           else 1.0),
        orientation2 = orientation ci,
        position2 = position cur,
        movementMagnitude2 =
          sqrt ((magnitude2 (xc cp - xc pp) (yc cp - yc pp) (zc cp - zc pp))\<^sup>2
                + (magnitude2 (normalizeDelta (c0 - p0)) (normalizeDelta (c1 - p1))
                     (normalizeDelta (c2 - p2)))\<^sup>2),
        positionMagnitude2 = magnitude2 (xc cp - xc pp) (yc cp - yc pp) (zc cp - zc pp),
        deltaTime2 = (timestamp cur - timestamp prev) / 1000,
        timestamp2 = timestamp cur\<rparr>)"
proof -
  have n: "\<not> ((timestamp cur - timestamp prev) / 1000 \<le> 0
              \<or> (timestamp cur - timestamp prev) / 1000 > 1)"
    using assms(1,2) by simp
  have z: "(timestamp cur - timestamp prev) / 1000 \<noteq> 0"
    using assms(1) by simp
  show ?thesis
    using n z assms(3-8)
    by (auto simp add: calculateMovementData2_def Let_def js_div_def)
qed

text \<open>
  The later classifier returns a result for every frame with an \<open>imu\<close> object and
  fingers; the event of a frame carries the movement computed against the stored frame,
  or the identity movement in its place.
\<close>

lemma classifyGesture2_total:
  assumes "imu fr = Some i" and "fingers fr = Some f"
  shows "\<exists>r. classifyGesture2 fr = Inr r"
  using assms
  by (cases "gyroscope i"; cases "acceleration i") (simp add: classifyGesture2_def Let_def)

lemma processSensorData2_movement:
  assumes "snd (processSensorData2 now body hist) = Inr ev" and "imu body = Some i"
  shows "\<exists>r. calculateMovementData2 (deviceId body) body (hist (deviceId body)) = Inr r
             \<and> e2_movementData ev = movementOrDefault r i body"
  using assms
  by (auto simp add: processSensorData2_def Let_def bindF_def deref_def
      split: sum.splits option.splits)

lemma processSensorData2_complete:
  assumes "calculateMovementData2 (deviceId body) body (hist (deviceId body)) = Inr r"
    and "imu body = Some i" and "fingers body = Some f" and "thumb body = Some t"
    and "palm body = Some p" and "switches body = Some sw"
  shows "\<exists>ev. processSensorData2 now body hist = (hist(deviceId body \<mapsto> body), Inr ev)
              \<and> e2_movementData ev = movementOrDefault r i body"
proof -
  from classifyGesture2_total [OF assms(2,3)] obtain gr where
    gr: "classifyGesture2 body = Inr gr" by blast
  show ?thesis
    using assms gr
    by (cases "orientation i")
      (simp add: processSensorData2_def normalizeCursorOrientation_def Let_def)
qed

text \<open>
  The estimated pinch distance is zero for a hand rolled by 30 degrees or more, and stays
  above the pinch threshold for a level hand with a calm gyroscope.
\<close>

lemma pinchDistance_rolled:
  assumes "orientation i = (roll, pitch, yaw)" and "pi / 6 \<le> \<bar>roll\<bar>"
  shows "calculateIMUBasedPinchDistance i pos = 0"
proof -
  have "1 \<le> \<bar>roll\<bar> / (pi / 6)"
    using assms(2) pi_gt_zero by (simp add: le_divide_eq)
  then have "max 0 (1 - \<bar>roll\<bar> / (pi / 6)) = 0" by simp
  then show ?thesis
    using assms(1)
    by (cases "gyroscope i") (simp add: calculateIMUBasedPinchDistance_def Let_def)
qed

lemma pinchDistance_level:
  assumes "orientation i = (roll, pitch, yaw)" and "gyroscope i = (g0, g1, g2)"
    and "\<bar>roll\<bar> \<le> 0.1" and "magnitude2 g0 g1 g2 \<le> 0.2"
  shows "0.0315 \<le> calculateIMUBasedPinchDistance i pos"
proof -
  define q where "q = \<bar>roll\<bar> / (pi / 6)"
  define pf where "pf = max 0 (1 - q)"
  define sf where "sf = 0.5 + 0.5 * max 0 (1 - magnitude2 g0 g1 g2)"
  have "1 / 10 \<le> 3 / 10 * (pi / 6)" using pi_ge_two by simp
  moreover have "\<bar>roll\<bar> \<le> 1 / 10" using assms(3) by simp
  ultimately have "\<bar>roll\<bar> \<le> 3 / 10 * (pi / 6)" by (rule order_trans [rotated])
  then have "q \<le> 3 / 10"
    unfolding q_def using pi_gt_zero by (simp add: pos_divide_le_eq)
  then have pf: "7 / 10 \<le> pf" unfolding pf_def by linarith
  have "magnitude2 g0 g1 g2 \<le> 2 / 10" using assms(4) by simp
  then have sf: "9 / 10 \<le> sf" unfolding sf_def by simp
  have "7 / 10 * (9 / 10) \<le> pf * sf"
    using pf sf by (intro mult_mono) simp_all
  then have "5 / 100 * (7 / 10 * (9 / 10)) \<le> 5 / 100 * (pf * sf)"
    by (intro mult_left_mono) simp_all
  moreover have "calculateIMUBasedPinchDistance i pos = 5 / 100 * (pf * sf)"
    using assms(1,2)
    by (simp add: calculateIMUBasedPinchDistance_def Let_def pf_def sf_def q_def)
  ultimately show ?thesis by simp
qed

section \<open>The movement magnitude\<close>

text \<open>
  C1. For every pair of a current and a previous frame of a device, both with an
  \<open>imu\<close> object and a position, the later movement calculation returns, and the
  movement of the event (the computed one, or the identity movement of a stale pair) has
  a movement magnitude equal to the square root of the sum of the squares of the position
  magnitude and the orientation magnitude, which are the Euclidean norms of the position
  delta and of the orientation delta.
\<close>

theorem magnitude_combined:
  assumes "imu cur = Some ci" and "imu prev = Some pim"
    and "position cur = Some cp" and "position prev = Some pp"
  shows "\<exists>r. calculateMovementData2 (deviceId cur) cur (Some prev) = Inr r
     \<and> movementMagnitude2 (movementOrDefault r ci cur) =
         sqrt ((positionMagnitude2 (movementOrDefault r ci cur))\<^sup>2
               + (sqrt ((fst (orientationDelta2 (movementOrDefault r ci cur)))\<^sup>2
                        + (fst (snd (orientationDelta2 (movementOrDefault r ci cur))))\<^sup>2
                        + (snd (snd (orientationDelta2 (movementOrDefault r ci cur))))\<^sup>2))\<^sup>2)
     \<and> positionMagnitude2 (movementOrDefault r ci cur) =
         sqrt ((xc (positionDelta2 (movementOrDefault r ci cur)))\<^sup>2
               + (yc (positionDelta2 (movementOrDefault r ci cur)))\<^sup>2
               + (zc (positionDelta2 (movementOrDefault r ci cur)))\<^sup>2)
     \<and> (\<forall>hist now ev. hist (deviceId cur) = Some prev
            \<and> snd (processSensorData2 now cur hist) = Inr ev \<longrightarrow>
            e2_movementData ev = movementOrDefault r ci cur)"
proof -
  obtain c0 c1 c2 where c: "orientation ci = (c0, c1, c2)" by (cases "orientation ci") auto
  obtain p0 p1 p2 where p: "orientation pim = (p0, p1, p2)" by (cases "orientation pim") auto
  have ev: "e2_movementData ev = movementOrDefault r ci cur"
    if "calculateMovementData2 (deviceId cur) cur (Some prev) = Inr r"
      and "hist (deviceId cur) = Some prev"
      and "snd (processSensorData2 now cur hist) = Inr ev" for r hist now ev
    using processSensorData2_movement [OF that(3) assms(1)] that(1,2) by auto
  have "\<exists>r. calculateMovementData2 (deviceId cur) cur (Some prev) = Inr r
     \<and> movementMagnitude2 (movementOrDefault r ci cur) =
         sqrt ((positionMagnitude2 (movementOrDefault r ci cur))\<^sup>2
               + (sqrt ((fst (orientationDelta2 (movementOrDefault r ci cur)))\<^sup>2
                        + (fst (snd (orientationDelta2 (movementOrDefault r ci cur))))\<^sup>2
                        + (snd (snd (orientationDelta2 (movementOrDefault r ci cur))))\<^sup>2))\<^sup>2)
     \<and> positionMagnitude2 (movementOrDefault r ci cur) =
         sqrt ((xc (positionDelta2 (movementOrDefault r ci cur)))\<^sup>2
               + (yc (positionDelta2 (movementOrDefault r ci cur)))\<^sup>2
               + (zc (positionDelta2 (movementOrDefault r ci cur)))\<^sup>2)"
  proof (cases "0 < (timestamp cur - timestamp prev) / 1000
                \<and> (timestamp cur - timestamp prev) / 1000 \<le> 1")
    case True
    then have t: "0 < (timestamp cur - timestamp prev) / 1000"
      "(timestamp cur - timestamp prev) / 1000 \<le> 1" by simp_all
    note f = calculateMovementData2_fresh [OF t assms(3,4) assms(1,2) c p, of "deviceId cur"]
    show ?thesis
      apply (rule exI)
      apply (rule conjI)
       apply (rule f)
      apply (simp add: movementOrDefault_def magnitude2_def)
      done
  next
    case False
    then have st: "(timestamp cur - timestamp prev) / 1000 \<le> 0
           \<or> (timestamp cur - timestamp prev) / 1000 > 1" by auto
    note f = calculateMovementData2_stale [OF st, of "deviceId cur"]
    show ?thesis
      apply (rule exI)
      apply (rule conjI)
       apply (rule f)
      apply (simp add: movementOrDefault_def)
      done
  qed
  then obtain r where
    r: "calculateMovementData2 (deviceId cur) cur (Some prev) = Inr r"
    and a: "movementMagnitude2 (movementOrDefault r ci cur) =
         sqrt ((positionMagnitude2 (movementOrDefault r ci cur))\<^sup>2
               + (sqrt ((fst (orientationDelta2 (movementOrDefault r ci cur)))\<^sup>2
                        + (fst (snd (orientationDelta2 (movementOrDefault r ci cur))))\<^sup>2
                        + (snd (snd (orientationDelta2 (movementOrDefault r ci cur))))\<^sup>2))\<^sup>2)"
    and b: "positionMagnitude2 (movementOrDefault r ci cur) =
         sqrt ((xc (positionDelta2 (movementOrDefault r ci cur)))\<^sup>2
               + (yc (positionDelta2 (movementOrDefault r ci cur)))\<^sup>2
               + (zc (positionDelta2 (movementOrDefault r ci cur)))\<^sup>2)"
    by blast
  have e: "\<forall>hist now ev. hist (deviceId cur) = Some prev
            \<and> snd (processSensorData2 now cur hist) = Inr ev \<longrightarrow>
            e2_movementData ev = movementOrDefault r ci cur"
    using ev [OF r] by blast
  show ?thesis
    by (rule exI [of _ r]) (intro conjI r a b e)
qed

theorem magnitude_combined_witness:
  "imu movedFrame = Some \<lparr>orientation = (4, 0, 0), acceleration = (0, 9.8, 0),
                            gyroscope = (0, 0, 0)\<rparr>
   \<and> imu restFrame = Some \<lparr>orientation = (0, 0, 0), acceleration = (0, 9.8, 0),
                             gyroscope = (0, 0, 0)\<rparr>
   \<and> position movedFrame = Some \<lparr>xc = 3, yc = 0, zc = 0\<rparr>
   \<and> position restFrame = Some \<lparr>xc = 0, yc = 0, zc = 0\<rparr>
   \<and> map_sum id (map_option orientationDelta2)
         (calculateMovementData2 (deviceId movedFrame) movedFrame (Some restFrame))
       = Inr (Some (4 - 2 * pi, 0, 0))
   \<and> map_sum id (map_option positionMagnitude2)
         (calculateMovementData2 (deviceId movedFrame) movedFrame (Some restFrame))
       = Inr (Some (sqrt (3\<^sup>2 + 0\<^sup>2 + 0\<^sup>2)))
   \<and> map_sum id (map_option movementMagnitude2)
         (calculateMovementData2 (deviceId movedFrame) movedFrame (Some restFrame))
       = Inr (Some (sqrt ((sqrt (3\<^sup>2 + 0\<^sup>2 + 0\<^sup>2))\<^sup>2
                          + (sqrt ((4 - 2 * pi)\<^sup>2 + 0\<^sup>2 + 0\<^sup>2))\<^sup>2)))"
proof -
  have a: "imu movedFrame = Some \<lparr>orientation = (4, 0, 0), acceleration = (0, 9.8, 0),
                            gyroscope = (0, 0, 0)\<rparr>"
    by (simp add: movedFrame_def restFrame_def)
  have b: "imu restFrame = Some \<lparr>orientation = (0, 0, 0), acceleration = (0, 9.8, 0),
                             gyroscope = (0, 0, 0)\<rparr>"
    by (simp add: restFrame_def)
  have c: "position movedFrame = Some \<lparr>xc = 3, yc = 0, zc = 0\<rparr>"
    by (simp add: movedFrame_def restFrame_def)
  have d: "position restFrame = Some \<lparr>xc = 0, yc = 0, zc = 0\<rparr>"
    by (simp add: restFrame_def)
  have t: "0 < (timestamp movedFrame - timestamp restFrame) / 1000"
    "(timestamp movedFrame - timestamp restFrame) / 1000 \<le> 1"
    by (simp_all add: movedFrame_def restFrame_def)
  note f = calculateMovementData2_fresh
    [OF t c d a b, of 4 0 0 0 0 0 "deviceId movedFrame", simplified]
  from magnitude_combined [OF a b c d] a b c d show ?thesis
    unfolding f by (simp add: movementOrDefault_def magnitude2_def normalizeDelta_4
        normalizeDelta_0)
qed

section \<open>The orientation delta\<close>



section \<open>Stale pairs of frames\<close>

text \<open>
  C4. Whenever the history holds a previous frame of the device and the delta time, the
  difference of the timestamps in seconds, is zero or negative or above 1, the later
  movement calculation returns nothing, and the event of a frame that carries \<open>imu\<close>,
  fingers, thumb, palm and switches has the identity movement: zero deltas, zero
  velocity, a movement magnitude of 0 and a scale factor of 1.
\<close>

theorem stale_pair_identity:
  assumes "hist (deviceId cur) = Some prev"
    and "(timestamp cur - timestamp prev) / 1000 \<le> 0
         \<or> (timestamp cur - timestamp prev) / 1000 > 1"
    and "imu cur = Some i" and "fingers cur = Some f" and "thumb cur = Some t"
    and "palm cur = Some p" and "switches cur = Some sw"
  shows "calculateMovementData2 (deviceId cur) cur (hist (deviceId cur)) = Inr None
     \<and> (\<exists>ev. processSensorData2 now cur hist = (hist(deviceId cur \<mapsto> cur), Inr ev)
           \<and> e2_movementData ev =
               \<lparr>orientationDelta2 = (0, 0, 0),
                positionDelta2 = \<lparr>xc = 0, yc = 0, zc = 0\<rparr>,
                velocity2 = \<lparr>xc = 0, yc = 0, zc = 0\<rparr>,
                scaleFactor2 = 1,
                orientation2 = orientation i,
                position2 = position cur,
                movementMagnitude2 = 0,
                positionMagnitude2 = 0,
                deltaTime2 = 0,
                timestamp2 = timestamp cur\<rparr>)"
proof -
  have n: "calculateMovementData2 (deviceId cur) cur (hist (deviceId cur)) = Inr None"
    unfolding assms(1) using assms(2) by (rule calculateMovementData2_stale)
  from processSensorData2_complete
    [where hist = hist and body = cur and now = now, OF n assms(3-7)] n
  show ?thesis
    by (simp add: movementOrDefault_def)
qed

theorem stale_pair_identity_witness:
  "[Some ''rightHand1'' \<mapsto> restFrame] (deviceId sameTimeFrame) = Some restFrame
   \<and> (timestamp sameTimeFrame - timestamp restFrame) / 1000 \<le> 0
   \<and> map_sum id e2_movementData
         (snd (processSensorData2 5 sameTimeFrame [Some ''rightHand1'' \<mapsto> restFrame]))
       = Inr \<lparr>orientationDelta2 = (0, 0, 0),
              positionDelta2 = \<lparr>xc = 0, yc = 0, zc = 0\<rparr>,
              velocity2 = \<lparr>xc = 0, yc = 0, zc = 0\<rparr>,
              scaleFactor2 = 1,
              orientation2 = (0, 0, 0),
              position2 = Some \<lparr>xc = 1, yc = 0, zc = 0\<rparr>,
              movementMagnitude2 = 0,
              positionMagnitude2 = 0,
              deltaTime2 = 0,
              timestamp2 = 1000\<rparr>
   \<and> [Some ''rightHand1'' \<mapsto> restFrame] (deviceId staleFrame) = Some restFrame
   \<and> (timestamp staleFrame - timestamp restFrame) / 1000 > 1
   \<and> map_sum id e2_movementData
         (snd (processSensorData2 5 staleFrame [Some ''rightHand1'' \<mapsto> restFrame]))
       = Inr \<lparr>orientationDelta2 = (0, 0, 0),
              positionDelta2 = \<lparr>xc = 0, yc = 0, zc = 0\<rparr>,
              velocity2 = \<lparr>xc = 0, yc = 0, zc = 0\<rparr>,
              scaleFactor2 = 1,
              orientation2 = (0, 0, 0),
              position2 = Some \<lparr>xc = 1, yc = 0, zc = 0\<rparr>,
              movementMagnitude2 = 0,
              positionMagnitude2 = 0,
              deltaTime2 = 0,
              timestamp2 = 6000\<rparr>"
proof -
  have h: "[Some ''rightHand1'' \<mapsto> restFrame] (deviceId sameTimeFrame) = Some restFrame"
    "[Some ''rightHand1'' \<mapsto> restFrame] (deviceId staleFrame) = Some restFrame"
    by (simp_all add: sameTimeFrame_def staleFrame_def restFrame_def)
  have t: "(timestamp sameTimeFrame - timestamp restFrame) / 1000 \<le> 0"
    "(timestamp staleFrame - timestamp restFrame) / 1000 > 1"
    by (simp_all add: sameTimeFrame_def staleFrame_def restFrame_def)
  have s: "imu sameTimeFrame = Some \<lparr>orientation = (0, 0, 0), acceleration = (0, 9.8, 0),
             gyroscope = (0, 0, 0)\<rparr>"
    "fingers sameTimeFrame = Some \<lparr>index = 0.4, middle = 0.4, ring = 0.4, little = 0.4\<rparr>"
    "thumb sameTimeFrame = Some \<lparr>bend = 0.4\<rparr>"
    "palm sameTimeFrame = Some \<lparr>pressure = 0.3\<rparr>"
    "switches sameTimeFrame = Some \<lparr>selectButton = False, modeButton = False,
        confirmButton = False\<rparr>"
    by (simp_all add: sameTimeFrame_def restFrame_def)
  have l: "imu staleFrame = Some \<lparr>orientation = (0, 0, 0), acceleration = (0, 9.8, 0),
             gyroscope = (0, 0, 0)\<rparr>"
    "fingers staleFrame = Some \<lparr>index = 0.4, middle = 0.4, ring = 0.4, little = 0.4\<rparr>"
    "thumb staleFrame = Some \<lparr>bend = 0.4\<rparr>"
    "palm staleFrame = Some \<lparr>pressure = 0.3\<rparr>"
    "switches staleFrame = Some \<lparr>selectButton = False, modeButton = False,
        confirmButton = False\<rparr>"
    by (simp_all add: staleFrame_def restFrame_def)
  have p: "position sameTimeFrame = Some \<lparr>xc = 1, yc = 0, zc = 0\<rparr>"
    "position staleFrame = Some \<lparr>xc = 1, yc = 0, zc = 0\<rparr>"
    "timestamp sameTimeFrame = 1000" "timestamp staleFrame = 6000"
    by (simp_all add: sameTimeFrame_def staleFrame_def restFrame_def)
  have t1: "(timestamp sameTimeFrame - timestamp restFrame) / 1000 \<le> 0
         \<or> (timestamp sameTimeFrame - timestamp restFrame) / 1000 > 1"
    using t(1) by simp
  have t2: "(timestamp staleFrame - timestamp restFrame) / 1000 \<le> 0
         \<or> (timestamp staleFrame - timestamp restFrame) / 1000 > 1"
    using t(2) by simp
  from stale_pair_identity
      [where hist = "[Some ''rightHand1'' \<mapsto> restFrame]" and cur = sameTimeFrame
         and now = 5, OF h(1) t1 s]
    stale_pair_identity
      [where hist = "[Some ''rightHand1'' \<mapsto> restFrame]" and cur = staleFrame
         and now = 5, OF h(2) t2 l]
    h t p
  show ?thesis by auto
qed

section \<open>The flat hand\<close>

text \<open>
  A flat hand is not always an open palm: with every bend at 0.05, the gyroscope at rest
  and the hand rolled by 1 radian, the estimated pinch distance is 0 and the later
  classifier returns a pinch with confidence 0.95.
\<close>

theorem rolled_flat_hand_is_pinch:
  "fingers rolledFlatFrame
     = Some \<lparr>index = 0.05, middle = 0.05, ring = 0.05, little = 0.05\<rparr>
   \<and> thumb rolledFlatFrame = Some \<lparr>bend = 0.05\<rparr>
   \<and> map_option gyroscope (imu rolledFlatFrame) = Some (0, 0, 0)
   \<and> map_option orientation (imu rolledFlatFrame) = Some (1, 0, 0)
   \<and> classifyGesture2 rolledFlatFrame = Inr \<lparr>gesture2 = pinch, confidence2 = 0.95\<rparr>"
proof -
  define i where "i = \<lparr>orientation = (1, 0, 0), acceleration = (0, 9.8, 0),
                          gyroscope = (0::real, 0::real, 0::real)\<rparr>"
  have i: "imu rolledFlatFrame = Some i" "orientation i = (1, 0, 0)"
    "gyroscope i = (0, 0, 0)" "acceleration i = (0, 9.8, 0)"
    by (simp_all add: i_def rolledFlatFrame_def flatFrame_def restFrame_def)
  have "pi / 6 \<le> \<bar>1::real\<bar>" using pi_less_4 by simp
  then have d: "calculateIMUBasedPinchDistance i pos = 0" for pos
    using i(2) by (intro pinchDistance_rolled [of _ 1 0 0]) simp_all
  have f: "fingers rolledFlatFrame
     = Some \<lparr>index = 0.05, middle = 0.05, ring = 0.05, little = 0.05\<rparr>"
    "thumb rolledFlatFrame = Some \<lparr>bend = 0.05\<rparr>"
    by (simp_all add: rolledFlatFrame_def flatFrame_def restFrame_def)
  have "classifyGesture2 rolledFlatFrame = Inr \<lparr>gesture2 = pinch, confidence2 = 0.95\<rparr>"
    using i f by (simp add: classifyGesture2_def Let_def d magnitude2_def)
  with i f show ?thesis by simp
qed

text \<open>
  C2 (as amended). For every frame whose four finger bends are about 0.05 (within 0.3 of
  it), whose gyroscope magnitude is low (at most 0.2) and whose roll is near level (at
  most 0.1 radian either way), whatever the thumb is, the later classifier returns an
  open palm with confidence 0.8; the pinch rule does not fire, since the estimated pinch
  distance of such a frame is at least the pinch threshold 0.03.
\<close>

theorem level_flat_hand_open_palm:
  assumes "imu fr = Some i" and "fingers fr = Some f"
    and "orientation i = (roll, pitch, yaw)" and "gyroscope i = (g0, g1, g2)"
    and "\<bar>index f - 0.05\<bar> \<le> 0.3" and "\<bar>middle f - 0.05\<bar> \<le> 0.3"
    and "\<bar>ring f - 0.05\<bar> \<le> 0.3" and "\<bar>little f - 0.05\<bar> \<le> 0.3"
    and "sqrt (g0\<^sup>2 + g1\<^sup>2 + g2\<^sup>2) \<le> 0.2"
    and "\<bar>roll\<bar> \<le> 0.1"
  shows "classifyGesture2 fr = Inr \<lparr>gesture2 = open_palm, confidence2 = 0.8\<rparr>
         \<and> 0.03 \<le> calculateIMUBasedPinchDistance i (position fr)"
proof -
  obtain a0 a1 a2 where acc: "acceleration i = (a0, a1, a2)"
    by (cases "acceleration i") auto
  have g: "magnitude2 g0 g1 g2 \<le> 0.2" using assms(9) by (simp add: magnitude2_def)
  from pinchDistance_level [OF assms(3,4) assms(10) g, of "position fr"]
  have d: "0.0315 \<le> calculateIMUBasedPinchDistance i (position fr)" .
  then have np: "\<not> calculateIMUBasedPinchDistance i (position fr) < 0.03" by simp
  have b: "index f < 0.4" "middle f < 0.4" "ring f < 0.4" "little f < 0.4"
    "\<not> middle f > 0.7" "\<not> index f > 0.6"
    using assms(5-8) by (simp_all add: abs_if split: if_splits)
  have g5: "magnitude2 g0 g1 g2 < 0.5" "\<not> magnitude2 g0 g1 g2 > 1.0"
    using g by simp_all
  have "classifyGesture2 fr = Inr \<lparr>gesture2 = open_palm, confidence2 = 0.8\<rparr>"
    using assms(1,2,4) acc np b g5
    by (simp add: classifyGesture2_def Let_def objectValues_def)
  with d show ?thesis by simp
qed

theorem level_flat_hand_open_palm_witness:
  "imu flatFrame = Some \<lparr>orientation = (0, 0, 0), acceleration = (0, 9.8, 0),
                           gyroscope = (0, 0, 0)\<rparr>
   \<and> fingers flatFrame = Some \<lparr>index = 0.05, middle = 0.05, ring = 0.05, little = 0.05\<rparr>
   \<and> thumb flatFrame = Some \<lparr>bend = 0.05\<rparr>
   \<and> \<bar>0.05 - 0.05\<bar> \<le> (0.3::real)
   \<and> sqrt (0\<^sup>2 + 0\<^sup>2 + 0\<^sup>2) \<le> (0.2::real)
   \<and> \<bar>0\<bar> \<le> (0.1::real)
   \<and> classifyGesture2 flatFrame = Inr \<lparr>gesture2 = open_palm, confidence2 = 0.8\<rparr>"
proof -
  have a: "imu flatFrame = Some \<lparr>orientation = (0, 0, 0), acceleration = (0, 9.8, 0),
                           gyroscope = (0, 0, 0)\<rparr>"
    by (simp add: flatFrame_def restFrame_def)
  have b: "fingers flatFrame
             = Some \<lparr>index = 0.05, middle = 0.05, ring = 0.05, little = 0.05\<rparr>"
    by (simp add: flatFrame_def restFrame_def)
  have c: "thumb flatFrame = Some \<lparr>bend = 0.05\<rparr>"
    by (simp add: flatFrame_def restFrame_def)
  from level_flat_hand_open_palm [OF a b, of 0 0 0 0 0 0] a b c show ?thesis
    by simp
qed

end
